theory Spec2Isabelle
  imports Main
begin

section \<open>Strings\<close>

text \<open>
  A Go string is a sequence of bytes; it is modelled as \<^typ>\<open>string\<close>, a list of
  8-bit characters.  The functions of package \<open>strings\<close> that the adapter calls are
  written out below, for the arguments the adapter passes.
\<close>

definition HasPrefix :: "string \<Rightarrow> string \<Rightarrow> bool" where
  "HasPrefix s pre = (take (length pre) s = pre)"

definition TrimPrefix :: "string \<Rightarrow> string \<Rightarrow> string" where
  "TrimPrefix s pre = (if HasPrefix s pre then drop (length pre) s else s)"

definition HasSuffix :: "string \<Rightarrow> string \<Rightarrow> bool" where
  "HasSuffix s suf = (length suf \<le> length s \<and> drop (length s - length suf) s = suf)"

definition TrimSuffix :: "string \<Rightarrow> string \<Rightarrow> string" where
  "TrimSuffix s suf = (if HasSuffix s suf then take (length s - length suf) s else s)"

text \<open>
  \<open>strings.TrimLeft(s, cutset)\<close> for a cutset of ASCII characters (the adapter only
  ever passes \<open>"/"\<close>): every leading byte that is in the cutset is dropped.
\<close>

definition TrimLeft :: "string \<Rightarrow> string \<Rightarrow> string" where
  "TrimLeft s cutset = dropWhile (\<lambda>c. c \<in> set cutset) s"

text \<open>
  \<open>strings.TrimSpace\<close> drops leading and trailing white space as \<open>unicode.IsSpace\<close>
  defines it.  On the UTF-8 bytes of the string these are the encodings of
  U+0009..U+000D, U+0020, U+0085, U+00A0, U+1680, U+2000..U+200A, U+2028, U+2029,
  U+202F, U+205F and U+3000.
\<close>

definition spaceRunes :: "string list" where
  "spaceRunes =
    [[CHR 0x09], [CHR 0x0A], [CHR 0x0B], [CHR 0x0C], [CHR 0x0D], [CHR 0x20],
     [CHR 0xC2, CHR 0x85], [CHR 0xC2, CHR 0xA0],
     [CHR 0xE1, CHR 0x9A, CHR 0x80],
     [CHR 0xE2, CHR 0x80, CHR 0x80], [CHR 0xE2, CHR 0x80, CHR 0x81],
     [CHR 0xE2, CHR 0x80, CHR 0x82], [CHR 0xE2, CHR 0x80, CHR 0x83],
     [CHR 0xE2, CHR 0x80, CHR 0x84], [CHR 0xE2, CHR 0x80, CHR 0x85],
     [CHR 0xE2, CHR 0x80, CHR 0x86], [CHR 0xE2, CHR 0x80, CHR 0x87],
     [CHR 0xE2, CHR 0x80, CHR 0x88], [CHR 0xE2, CHR 0x80, CHR 0x89],
     [CHR 0xE2, CHR 0x80, CHR 0x8A],
     [CHR 0xE2, CHR 0x80, CHR 0xA8], [CHR 0xE2, CHR 0x80, CHR 0xA9],
     [CHR 0xE2, CHR 0x80, CHR 0xAF], [CHR 0xE2, CHR 0x81, CHR 0x9F],
     [CHR 0xE3, CHR 0x80, CHR 0x80]]"

definition leadingRune :: "string list \<Rightarrow> string \<Rightarrow> string option" where
  "leadingRune runes s = find (\<lambda>w. w \<noteq> [] \<and> HasPrefix s w) runes"

function trimLeading :: "string list \<Rightarrow> string \<Rightarrow> string" where
  "trimLeading runes s =
     (case leadingRune runes s of
        None \<Rightarrow> s
      | Some w \<Rightarrow> trimLeading runes (drop (length w) s))"
  by pat_completeness auto

lemma leadingRune_shorter:
  "leadingRune runes s = Some w \<Longrightarrow> length (drop (length w) s) < length s"
proof -
  assume "leadingRune runes s = Some w"
  then have "w \<noteq> []" and "take (length w) s = w"
    by (auto simp: leadingRune_def HasPrefix_def find_Some_iff)
  then have "s \<noteq> []" and "0 < length w"
    by auto
  then show ?thesis
    by simp
qed

termination trimLeading
  by (relation "measure (\<lambda>(runes, s). length s)") (auto dest: leadingRune_shorter)

definition TrimSpace :: "string \<Rightarrow> string" where
  "TrimSpace s = rev (trimLeading (map rev spaceRunes) (rev (trimLeading spaceRunes s)))"

section \<open>The UUID pattern\<close>

text \<open>
  \<open>uuidPattern\<close> is the regular expression
  \<^verbatim>\<open>[0-9a-fA-F]{8}-[0-9a-fA-F]{4}-[1-5][0-9a-fA-F]{3}-[89abAB][0-9a-fA-F]{3}-[0-9a-fA-F]{12}\<close>.
  It is a sequence of 36 character classes, so a match is a window of 36 bytes; the
  expression is kept as the list of its classes.  \<open>FindString\<close> returns the leftmost
  match, or the empty string when there is none; \<open>MatchString\<close> says whether the
  string contains a match.
\<close>

type_synonym regexp = "(char \<Rightarrow> bool) list"

definition hexDigit :: "char \<Rightarrow> bool" where
  "hexDigit c = (c \<in> set ''0123456789abcdefABCDEF'')"

definition oneOf :: "string \<Rightarrow> char \<Rightarrow> bool" where
  "oneOf cs c = (c \<in> set cs)"

definition uuidPattern :: regexp where
  "uuidPattern =
     replicate 8 hexDigit @ [oneOf ''-''] @
     replicate 4 hexDigit @ [oneOf ''-''] @
     [oneOf ''12345''] @ replicate 3 hexDigit @ [oneOf ''-''] @
     [oneOf ''89abAB''] @ replicate 3 hexDigit @ [oneOf ''-''] @
     replicate 12 hexDigit"

definition matchesAt :: "regexp \<Rightarrow> string \<Rightarrow> bool" where
  "matchesAt re s = (length re \<le> length s \<and> list_all2 (\<lambda>cls c. cls c) re (take (length re) s))"

primrec FindString :: "regexp \<Rightarrow> string \<Rightarrow> string" where
  "FindString re [] = []"
| "FindString re (c # s) =
     (if matchesAt re (c # s) then take (length re) (c # s) else FindString re s)"

primrec MatchString :: "regexp \<Rightarrow> string \<Rightarrow> bool" where
  "MatchString re [] = False"
| "MatchString re (c # s) = (matchesAt re (c # s) \<or> MatchString re s)"

section \<open>Configuration and the reference codec\<close>

record Config =
  BaseURL :: string
  APIKey :: string
  AlbumName :: string
  AlbumID :: string

definition Enabled :: "Config \<Rightarrow> bool" where
  "Enabled c = (BaseURL c \<noteq> [] \<and> APIKey c \<noteq> [])"

definition ReferencePrefix :: string where
  "ReferencePrefix = ''immich:''"

definition NormalizeReference :: "string \<Rightarrow> string" where
  "NormalizeReference assetID = ReferencePrefix @ assetID"

definition ParseReference :: "string \<Rightarrow> string \<times> bool" where
  "ParseReference reference =
     (if HasPrefix reference ReferencePrefix then
        (let assetID = TrimPrefix reference ReferencePrefix in (assetID, assetID \<noteq> []))
      else ([], False))"

text \<open>
  Package \<open>net/url\<close> and \<open>strings.EqualFold\<close> (Unicode case folding) belong to Go's
  standard library, not to the repository.  They are parameters of the model: a value
  of \<open>golib\<close> gives, for every input, what the library returns (\<open>Inl\<close> an error
  message).  Of a parsed URL the
  adapter reads the host, the path and the query; \<open>url_Query\<close> lists the entries of
  \<open>parsed.Query()\<close> in the order in which the \<open>range\<close> loop visits them (Go leaves the
  order of a map iteration open, so every order is a possible library).
\<close>

record URL =
  Host :: string
  Path :: string
  RawQuery :: string

record golib =
  url_Parse :: "string \<Rightarrow> string + URL"
  url_Query :: "string \<Rightarrow> (string \<times> string list) list"
  strings_EqualFold :: "string \<Rightarrow> string \<Rightarrow> bool"

primrec findInValues :: "string list \<Rightarrow> string option" where
  "findInValues [] = None"
| "findInValues (v # vs) =
     (let match = FindString uuidPattern v in
      if match \<noteq> [] then Some match else findInValues vs)"

primrec findInQuery :: "(string \<times> string list) list \<Rightarrow> string option" where
  "findInQuery [] = None"
| "findInQuery (kv # rest) =
     (case findInValues (snd kv) of Some match \<Rightarrow> Some match | None \<Rightarrow> findInQuery rest)"

definition ExtractAssetIDFromLink :: "golib \<Rightarrow> string \<Rightarrow> Config \<Rightarrow> string \<times> bool" where
  "ExtractAssetIDFromLink L link0 cfg =
     (let link = TrimSpace link0 in
      if link = [] then ([], False)
      else if HasPrefix link ReferencePrefix then
        (let assetID = TrimLeft (TrimPrefix link ReferencePrefix) ''/'' in (assetID, assetID \<noteq> []))
      else if HasPrefix link ''immich://'' then
        (let assetID = TrimLeft (TrimPrefix link ''immich://'') ''/'' in (assetID, assetID \<noteq> []))
      else
        (case url_Parse L link of
           Inl err \<Rightarrow> ([], False)
         | Inr parsed \<Rightarrow>
             if Host parsed = [] then ([], False)
             else if BaseURL cfg \<noteq> [] \<and>
                     (case url_Parse L (BaseURL cfg) of
                        Inl err \<Rightarrow> True
                      | Inr base \<Rightarrow>
                          Host base = [] \<or> \<not> strings_EqualFold L (Host parsed) (Host base))
             then ([], False)
             else
               (let match = FindString uuidPattern (Path parsed) in
                if match \<noteq> [] then (match, True)
                else
                  (case findInQuery (url_Query L (RawQuery parsed)) of
                     Some m \<Rightarrow> (m, True)
                   | None \<Rightarrow> ([], False)))))"

section \<open>Errors\<close>

text \<open>
  A Go \<open>error\<close> value.  \<open>httpStatusError\<close> is the adapter's own error type; the two
  errors of \<open>encoding/json\<close> are kept without their positions; \<open>Errorf\<close> is an error the
  adapter makes with \<open>fmt.Errorf\<close>; \<open>LibError\<close> is any other error of the standard
  library (URL parsing, request construction, transport, reading a body).  A function
  that returns \<open>error\<close> returns an \<open>error option\<close>, \<open>None\<close> for \<open>nil\<close>.
\<close>

datatype error =
    httpStatusError int string
  | SyntaxError
  | UnmarshalTypeError
  | Errorf string
  | LibError string

definition isRetryableImmichPath :: "error \<Rightarrow> bool" where
  "isRetryableImmichPath err =
     (case err of
        httpStatusError StatusCode Message \<Rightarrow> StatusCode = 404 \<or> StatusCode = 405
      | _ \<Rightarrow> False)"

section \<open>JSON\<close>

text \<open>
  \<open>encoding/json\<close> is Go's, not the repository's.  A byte slice that the adapter hands
  to \<open>json.Unmarshal\<close> is modelled as its text together with what the library's
  scanner makes of it: \<open>None\<close> when the text is not valid JSON, otherwise the value,
  one level deep.  The elements of an array and the members of an object are byte
  slices again (what a \<open>json.RawMessage\<close> holds), in the order of the text.  A string
  carries its decoded content, a number its literal.
\<close>

datatype json =
    JNull
  | JBool bool
  | JNumber string
  | JString string
  | JArray "bytes list"
  | JObject "(string \<times> bytes) list"
and bytes = Bytes (content: string) (scanned: "json option")

definition nilBytes :: bytes where
  "nilBytes = Bytes [] None"

text \<open>
  \<open>strconv.ParseInt(s, 10, 64)\<close>, which the decoder applies to a number literal that
  goes into an \<open>int\<close> or \<open>int64\<close> field, and which is \<open>strconv.Atoi\<close> on a 64-bit
  platform: an optional sign and decimal digits, within the range of \<open>int64\<close>.
  \<open>strconv.Itoa\<close> is the decimal text of an integer.
\<close>

definition digitValue :: "char \<Rightarrow> int option" where
  "digitValue c =
     (let n = (of_char c :: int) in if 48 \<le> n \<and> n \<le> 57 then Some (n - 48) else None)"

primrec parseDigits :: "int \<Rightarrow> string \<Rightarrow> int option" where
  "parseDigits acc [] = Some acc"
| "parseDigits acc (c # s) =
     (case digitValue c of None \<Rightarrow> None | Some d \<Rightarrow> parseDigits (10 * acc + d) s)"

definition ParseInt :: "string \<Rightarrow> int option" where
  "ParseInt s =
     (let neg = (s \<noteq> [] \<and> hd s = CHR ''-'');
          ds = (if s \<noteq> [] \<and> (hd s = CHR ''-'' \<or> hd s = CHR ''+'') then tl s else s)
      in if ds = [] then None
         else (case parseDigits 0 ds of
                 None \<Rightarrow> None
               | Some n \<Rightarrow>
                   if neg then (if n \<le> 2 ^ 63 then Some (- n) else None)
                   else (if n < 2 ^ 63 then Some n else None)))"

function decimal :: "int \<Rightarrow> string" where
  "decimal n =
     (if n < 10 then [char_of (48 + n)] else decimal (n div 10) @ [char_of (48 + n mod 10)])"
  by pat_completeness auto

termination decimal
  by (relation "measure nat") auto

definition Itoa :: "int \<Rightarrow> string" where
  "Itoa i = (if i < 0 then CHR ''-'' # decimal (- i) else decimal i)"

text \<open>
  The decoder matches an object key to a struct field by the field's JSON name,
  ignoring case.  All names here are ASCII, so a key matches when folding it gives the
  upper-case name: ASCII letters fold to upper case, and the two non-ASCII runes that
  fold to ASCII letters are U+017F (long s, bytes C5 BF) and U+212A (Kelvin sign, bytes
  E2 84 AA); every other byte stays, and then differs from every ASCII name.
\<close>

definition toUpper :: "char \<Rightarrow> char" where
  "toUpper c =
     (let n = (of_char c :: nat) in if 97 \<le> n \<and> n \<le> 122 then char_of (n - 32) else c)"

fun foldName :: "string \<Rightarrow> string" where
  "foldName (a # b # c # s) =
     (if a = CHR 0xE2 \<and> b = CHR 0x84 \<and> c = CHR 0xAA then CHR ''K'' # foldName s
      else if a = CHR 0xC5 \<and> b = CHR 0xBF then CHR ''S'' # foldName (c # s)
      else toUpper a # foldName (b # c # s))"
| "foldName [a, b] =
     (if a = CHR 0xC5 \<and> b = CHR 0xBF then [CHR ''S''] else toUpper a # foldName [b])"
| "foldName [a] = [toUpper a]"
| "foldName [] = []"

definition keyIs :: "string \<Rightarrow> string \<Rightarrow> bool" where
  "keyIs key name = (foldName key = foldName name)"

text \<open>
  Decoding one member value into a field that already holds \<open>cur\<close>: the new content
  of the field, or \<open>None\<close> for an \<open>UnmarshalTypeError\<close>.  JSON \<open>null\<close> leaves a string
  or integer field as it is.
\<close>

definition stringField :: "bytes \<Rightarrow> string \<Rightarrow> string option" where
  "stringField x cur =
     (case scanned x of
        Some (JString s) \<Rightarrow> Some s
      | Some JNull \<Rightarrow> Some cur
      | _ \<Rightarrow> None)"

definition intField :: "bytes \<Rightarrow> int \<Rightarrow> int option" where
  "intField x cur =
     (case scanned x of
        Some (JNumber lit) \<Rightarrow> ParseInt lit
      | Some JNull \<Rightarrow> Some cur
      | _ \<Rightarrow> None)"

text \<open>
  \<open>json.Unmarshal\<close> into a struct.  \<open>setField key x v\<close> decodes member \<open>key\<close> into \<open>v\<close>
  (\<open>None\<close>: type error; a key that names no field leaves \<open>v\<close> as it is).  Members are
  decoded in the order of the text, so a later duplicate overwrites an earlier one; a
  type error is recorded (the first one is what \<open>Unmarshal\<close> returns) and decoding
  goes on with the next member.  The result is the struct as decoded so far and the
  error.  JSON \<open>null\<close> decodes to the unchanged struct without error.
\<close>

definition decodeMember ::
  "(string \<Rightarrow> bytes \<Rightarrow> 'a \<Rightarrow> 'a option) \<Rightarrow> 'a \<times> error option \<Rightarrow> string \<times> bytes \<Rightarrow> 'a \<times> error option" where
  "decodeMember setField st kv =
     (case setField (fst kv) (snd kv) (fst st) of
        Some v' \<Rightarrow> (v', snd st)
      | None \<Rightarrow> (fst st, (if snd st = None then Some UnmarshalTypeError else snd st)))"

definition unmarshalStruct ::
  "(string \<Rightarrow> bytes \<Rightarrow> 'a \<Rightarrow> 'a option) \<Rightarrow> 'a \<Rightarrow> bytes \<Rightarrow> 'a \<times> error option" where
  "unmarshalStruct setField zero data =
     (case scanned data of
        None \<Rightarrow> (zero, Some SyntaxError)
      | Some JNull \<Rightarrow> (zero, None)
      | Some (JObject members) \<Rightarrow> foldl (decodeMember setField) (zero, None) members
      | Some _ \<Rightarrow> (zero, Some UnmarshalTypeError))"

text \<open>\<open>json.Unmarshal\<close> into a \<open>[]json.RawMessage\<close> and into a \<open>map[string]json.RawMessage\<close>
  that are \<open>nil\<close> before the call.  \<open>null\<close> leaves them \<open>nil\<close> without error; in a map
  the last of several equal keys stays.\<close>

definition unmarshalRawArray :: "bytes \<Rightarrow> bytes list \<times> error option" where
  "unmarshalRawArray data =
     (case scanned data of
        None \<Rightarrow> ([], Some SyntaxError)
      | Some (JArray elems) \<Rightarrow> (elems, None)
      | Some JNull \<Rightarrow> ([], None)
      | Some _ \<Rightarrow> ([], Some UnmarshalTypeError))"

definition unmarshalRawObject :: "bytes \<Rightarrow> (string \<rightharpoonup> bytes) \<times> error option" where
  "unmarshalRawObject data =
     (case scanned data of
        None \<Rightarrow> (Map.empty, Some SyntaxError)
      | Some (JObject members) \<Rightarrow> (map_of (rev members), None)
      | Some JNull \<Rightarrow> (Map.empty, None)
      | Some _ \<Rightarrow> (Map.empty, Some UnmarshalTypeError))"

section \<open>Assets\<close>

record Asset =
  ID :: string
  AssetID :: string
  DeviceAssetID :: string
  UUID :: string
  OriginalFileName :: string
  OriginalMimeType :: string
  FileSizeInByte :: int
  Type :: string

definition zeroAsset :: Asset where
  "zeroAsset = \<lparr>ID = [], AssetID = [], DeviceAssetID = [], UUID = [], OriginalFileName = [],
     OriginalMimeType = [], FileSizeInByte = 0, Type = []\<rparr>"

definition setAssetField :: "string \<Rightarrow> bytes \<Rightarrow> Asset \<Rightarrow> Asset option" where
  "setAssetField key x a =
     (if keyIs key ''id'' then map_option (\<lambda>v. a\<lparr>ID := v\<rparr>) (stringField x (ID a))
      else if keyIs key ''assetId'' then
        map_option (\<lambda>v. a\<lparr>AssetID := v\<rparr>) (stringField x (AssetID a))
      else if keyIs key ''deviceAssetId'' then
        map_option (\<lambda>v. a\<lparr>DeviceAssetID := v\<rparr>) (stringField x (DeviceAssetID a))
      else if keyIs key ''uuid'' then map_option (\<lambda>v. a\<lparr>UUID := v\<rparr>) (stringField x (UUID a))
      else if keyIs key ''originalFileName'' then
        map_option (\<lambda>v. a\<lparr>OriginalFileName := v\<rparr>) (stringField x (OriginalFileName a))
      else if keyIs key ''originalMimeType'' then
        map_option (\<lambda>v. a\<lparr>OriginalMimeType := v\<rparr>) (stringField x (OriginalMimeType a))
      else if keyIs key ''fileSizeInByte'' then
        map_option (\<lambda>v. a\<lparr>FileSizeInByte := v\<rparr>) (intField x (FileSizeInByte a))
      else if keyIs key ''type'' then map_option (\<lambda>v. a\<lparr>Type := v\<rparr>) (stringField x (Type a))
      else Some a)"

definition unmarshalAsset :: "bytes \<Rightarrow> Asset \<times> error option" where
  "unmarshalAsset raw = unmarshalStruct setAssetField zeroAsset raw"

definition decodeAssetRaw :: "bytes \<Rightarrow> Asset \<times> error option" where
  "decodeAssetRaw raw =
     (case unmarshalAsset raw of
        (asset, Some err) \<Rightarrow> (zeroAsset, Some err)
      | (asset, None) \<Rightarrow>
          (let asset = (if ID asset = [] then asset\<lparr>ID := AssetID asset\<rparr> else asset);
               asset = (if ID asset = [] then asset\<lparr>ID := DeviceAssetID asset\<rparr> else asset);
               asset = (if ID asset = [] then asset\<lparr>ID := UUID asset\<rparr> else asset);
               asset = asset\<lparr>ID := TrimLeft (ID asset) ''/''\<rparr>;
               asset =
                 (if ID asset = [] then
                    (let match = FindString uuidPattern (content raw) in
                     if match \<noteq> [] then asset\<lparr>ID := match\<rparr> else asset)
                  else asset)
           in (asset, None)))"

text \<open>The loop of \<open>decodeAssetSlice\<close>, with the slice \<open>assets\<close> built so far.\<close>

primrec decodeAssetLoop :: "Asset list \<Rightarrow> bytes list \<Rightarrow> Asset list \<times> error option" where
  "decodeAssetLoop assets [] = (assets, None)"
| "decodeAssetLoop assets (raw # rest) =
     (case decodeAssetRaw raw of
        (asset, Some err) \<Rightarrow> ([], Some err)
      | (asset, None) \<Rightarrow> decodeAssetLoop (assets @ [asset]) rest)"

definition decodeAssetSlice :: "bytes list \<Rightarrow> Asset list \<times> error option" where
  "decodeAssetSlice rawAssets = decodeAssetLoop [] rawAssets"

definition decodeAssetsFromUnknown :: "bytes \<Rightarrow> Asset list \<times> error option" where
  "decodeAssetsFromUnknown data =
     (case unmarshalRawArray data of
        (rawArray, None) \<Rightarrow> decodeAssetSlice rawArray
      | (_, Some _) \<Rightarrow>
     (case unmarshalRawObject data of
        (_, Some err) \<Rightarrow> ([], Some err)
      | (rawObject, None) \<Rightarrow>
     (case (case rawObject ''assets'' of
              None \<Rightarrow> None
            | Some assetsRaw \<Rightarrow>
                (case unmarshalRawArray assetsRaw of
                   (rawArray, None) \<Rightarrow> Some rawArray
                 | (_, Some _) \<Rightarrow>
                (case unmarshalRawObject assetsRaw of
                   (_, Some _) \<Rightarrow> None
                 | (assetsObj, None) \<Rightarrow>
                (case assetsObj ''items'' of
                   None \<Rightarrow> None
                 | Some itemsRaw \<Rightarrow>
                     (case unmarshalRawArray itemsRaw of
                        (rawArray, None) \<Rightarrow> Some rawArray
                      | (_, Some _) \<Rightarrow> None))))) of
        Some rawArray \<Rightarrow> decodeAssetSlice rawArray
      | None \<Rightarrow>
     (case (case rawObject ''items'' of
              None \<Rightarrow> None
            | Some itemsRaw \<Rightarrow>
                (case unmarshalRawArray itemsRaw of
                   (rawArray, None) \<Rightarrow> Some rawArray
                 | (_, Some _) \<Rightarrow> None)) of
        Some rawArray \<Rightarrow> decodeAssetSlice rawArray
      | None \<Rightarrow> ([], Some (Errorf ''failed to decode immich assets''))))))"

section \<open>Albums and search results\<close>

text \<open>The fields of \<open>Album\<close> carry the prefix \<open>Album_\<close>: \<open>ID\<close> and \<open>AlbumName\<close> name fields
  of \<open>Asset\<close> and \<open>Config\<close> already.\<close>

record Album =
  Album_ID :: string
  Album_AlbumName :: string
  Album_Name :: string
  Album_AssetCount :: int
  Album_ThumbnailAssetID :: string

definition zeroAlbum :: Album where
  "zeroAlbum = \<lparr>Album_ID = [], Album_AlbumName = [], Album_Name = [], Album_AssetCount = 0,
     Album_ThumbnailAssetID = []\<rparr>"

definition DisplayName :: "Album \<Rightarrow> string" where
  "DisplayName a = (if Album_AlbumName a \<noteq> [] then Album_AlbumName a else Album_Name a)"

definition setAlbumField :: "string \<Rightarrow> bytes \<Rightarrow> Album \<Rightarrow> Album option" where
  "setAlbumField key x a =
     (if keyIs key ''id'' then map_option (\<lambda>v. a\<lparr>Album_ID := v\<rparr>) (stringField x (Album_ID a))
      else if keyIs key ''albumName'' then
        map_option (\<lambda>v. a\<lparr>Album_AlbumName := v\<rparr>) (stringField x (Album_AlbumName a))
      else if keyIs key ''name'' then
        map_option (\<lambda>v. a\<lparr>Album_Name := v\<rparr>) (stringField x (Album_Name a))
      else if keyIs key ''assetCount'' then
        map_option (\<lambda>v. a\<lparr>Album_AssetCount := v\<rparr>) (intField x (Album_AssetCount a))
      else if keyIs key ''albumThumbnailAssetId'' then
        map_option (\<lambda>v. a\<lparr>Album_ThumbnailAssetID := v\<rparr>)
          (stringField x (Album_ThumbnailAssetID a))
      else Some a)"

text \<open>
  \<open>json.Unmarshal\<close> into a \<open>[]Album\<close>, as the library documents it: the slice is reset
  and every element of the array is decoded into a fresh \<open>Album\<close>; \<open>null\<close> gives
  \<open>nil\<close>.  The error is that of the first element that has one.
\<close>

definition unmarshalAlbumSlice :: "bytes \<Rightarrow> Album list \<times> error option" where
  "unmarshalAlbumSlice data =
     (case scanned data of
        None \<Rightarrow> ([], Some SyntaxError)
      | Some JNull \<Rightarrow> ([], None)
      | Some (JArray elems) \<Rightarrow>
          (let rs = map (unmarshalStruct setAlbumField zeroAlbum) elems
           in (map fst rs, (case filter (\<lambda>e. e \<noteq> None) (map snd rs) of [] \<Rightarrow> None | e # _ \<Rightarrow> e)))
      | Some _ \<Rightarrow> ([], Some UnmarshalTypeError))"

text \<open>The wrapper structs of \<open>decodeAlbums\<close> (a field \<open>Albums []Album\<close>) and of
  \<open>decodeAlbum\<close> (a field \<open>Album *Album\<close>; a pointer that is already set is decoded
  into, \<open>null\<close> sets it to \<open>nil\<close>).\<close>

definition setAlbumsWrapperField :: "string \<Rightarrow> bytes \<Rightarrow> Album list \<Rightarrow> Album list option" where
  "setAlbumsWrapperField key x cur =
     (if keyIs key ''albums'' then
        (case unmarshalAlbumSlice x of (albums, None) \<Rightarrow> Some albums | (_, Some _) \<Rightarrow> None)
      else Some cur)"

definition setAlbumWrapperField :: "string \<Rightarrow> bytes \<Rightarrow> Album option \<Rightarrow> Album option option" where
  "setAlbumWrapperField key x cur =
     (if keyIs key ''album'' then
        (case scanned x of
           Some JNull \<Rightarrow> Some None
         | Some (JObject _) \<Rightarrow>
             (case unmarshalStruct setAlbumField (case cur of None \<Rightarrow> zeroAlbum | Some a \<Rightarrow> a) x of
                (a, None) \<Rightarrow> Some (Some a)
              | (_, Some _) \<Rightarrow> None)
         | _ \<Rightarrow> None)
      else Some cur)"

definition decodeAlbums :: "bytes \<Rightarrow> Album list \<times> error option" where
  "decodeAlbums data =
     (case unmarshalAlbumSlice data of (albums, err) \<Rightarrow>
      if err = None \<and> albums \<noteq> [] then (albums, None)
      else
        (case unmarshalStruct setAlbumsWrapperField [] data of (wrapperAlbums, werr) \<Rightarrow>
         if werr = None \<and> wrapperAlbums \<noteq> [] then (wrapperAlbums, None)
         else
           (case unmarshalAlbumSlice data of
              (_, Some err) \<Rightarrow> ([], Some err)
            | (albums, None) \<Rightarrow> (albums, None))))"

text \<open>\<open>decodeAlbum\<close> returns either an album and no error, or no album and an error.\<close>

definition decodeAlbum :: "bytes \<Rightarrow> error + Album" where
  "decodeAlbum data =
     (case unmarshalStruct setAlbumField zeroAlbum data of (album, err) \<Rightarrow>
      if err = None \<and> (Album_ID album \<noteq> [] \<or> Album_AlbumName album \<noteq> [] \<or> Album_Name album \<noteq> [])
      then Inr album
      else
        (case unmarshalStruct setAlbumWrapperField None data of
           (Some album, None) \<Rightarrow> Inr album
         | _ \<Rightarrow> Inl (Errorf ''failed to decode immich album'')))"

record SearchAssetsRequest =
  Page :: int
  Size :: int
  Order :: string
  AlbumIDs :: "string list"

record SearchAssetsResponse =
  Assets :: "Asset list"
  NextPage :: int
  NextPageToken :: string

definition setPageField :: "string \<Rightarrow> bytes \<Rightarrow> int \<times> string \<Rightarrow> (int \<times> string) option" where
  "setPageField key x r =
     (if keyIs key ''nextPage'' then map_option (\<lambda>v. (v, snd r)) (intField x (fst r))
      else if keyIs key ''nextPageToken'' then map_option (\<lambda>v. (fst r, v)) (stringField x (snd r))
      else Some r)"

text \<open>The error of the second \<open>Unmarshal\<close> is dropped; what it decoded stays.\<close>

definition decodeSearchAssets :: "bytes \<Rightarrow> SearchAssetsResponse option \<times> error option" where
  "decodeSearchAssets data =
     (case decodeAssetsFromUnknown data of
        (_, Some err) \<Rightarrow> (None, Some err)
      | (assets, None) \<Rightarrow>
          (let response = fst (unmarshalStruct setPageField (0, []) data)
           in (Some \<lparr>Assets = assets, NextPage = fst response, NextPageToken = snd response\<rparr>,
               None)))"

section \<open>The HTTP client\<close>

text \<open>
  The value that goes into a request as its JSON body (the \<open>body any\<close> of \<open>doJSON\<close>):
  a string, a list of strings, a \<open>map[string]any\<close> or a \<open>SearchAssetsRequest\<close>.
\<close>

datatype goValue =
    StringValue string
  | StringsValue "string list"
  | MapValue "(string \<times> goValue) list"
  | SearchValue SearchAssetsRequest

text \<open>
  A request as the adapter builds it: the method, the full URL, the headers it sets,
  and the value whose JSON text is the body.
\<close>

record request =
  reqMethod :: string
  reqURL :: string
  reqHeaders :: "(string \<times> string) list"
  reqBody :: "goValue option"

text \<open>
  What \<open>httpClient.Do\<close> gives back: an error, or a response with its status code, the
  bytes of its body and the error, if any, that reading the body to its end runs into.
\<close>

datatype outcome =
    DoFailed string
  | Responded int bytes "string option"

text \<open>
  Everything outside the repository that a request passes through is a parameter: the
  error of \<open>json.Marshal\<close> for a body, the error of \<open>http.NewRequestWithContext\<close> for a
  method and URL, and the round trip itself, which depends on the state \<open>'w\<close> of the
  world (the photo service, the network, the caller's cancellation) and changes it.
\<close>

record 'w transport =
  json_Marshal :: "goValue \<Rightarrow> string option"
  http_NewRequest :: "string \<Rightarrow> string \<Rightarrow> string option"
  client_Do :: "'w \<Rightarrow> request \<Rightarrow> outcome \<times> 'w"

text \<open>The state that the adapter's calls thread: the world, and the requests handed to
  \<open>httpClient.Do\<close> so far, oldest first.\<close>

record 'w net =
  remote :: 'w
  sent :: "request list"

record Client =
  apiBaseURL :: string
  apiKey :: string

definition NewClient :: "golib \<Rightarrow> Config \<Rightarrow> error + Client" where
  "NewClient L cfg =
     (let base = TrimSuffix (BaseURL cfg) ''/'';
          base = (if \<not> HasSuffix base ''/api'' then base @ ''/api'' else base)
      in case url_Parse L base of
           Inl err \<Rightarrow> Inl (LibError err)
         | Inr _ \<Rightarrow> Inr \<lparr>apiBaseURL = base, apiKey = APIKey cfg\<rparr>)"

definition roundTrip ::
  "'w transport \<Rightarrow> request \<Rightarrow> 'w net \<Rightarrow> (bytes \<times> error option) \<times> 'w net" where
  "roundTrip T req n =
     (case client_Do T (remote n) req of (out, w) \<Rightarrow>
      (let n' = \<lparr>remote = w, sent = sent n @ [req]\<rparr>
       in case out of
            DoFailed err \<Rightarrow> ((nilBytes, Some (LibError err)), n')
          | Responded StatusCode respBody readErr \<Rightarrow>
              if StatusCode < 200 \<or> StatusCode \<ge> 300 then
                ((nilBytes,
                  Some (httpStatusError StatusCode (TrimSpace (take 1024 (content respBody))))), n')
              else
                (case readErr of
                   Some err \<Rightarrow> ((respBody, Some (LibError err)), n')
                 | None \<Rightarrow> ((respBody, None), n'))))"

definition doJSON ::
  "'w transport \<Rightarrow> Client \<Rightarrow> string \<Rightarrow> string \<Rightarrow> goValue option \<Rightarrow> 'w net
     \<Rightarrow> (bytes \<times> error option) \<times> 'w net" where
  "doJSON T c meth path body n =
     (case (case body of None \<Rightarrow> None | Some v \<Rightarrow> json_Marshal T v) of
        Some err \<Rightarrow> ((nilBytes, Some (LibError err)), n)
      | None \<Rightarrow>
          (let fullURL = apiBaseURL c @ path
           in case http_NewRequest T meth fullURL of
                Some err \<Rightarrow> ((nilBytes, Some (LibError err)), n)
              | None \<Rightarrow>
                  roundTrip T
                    \<lparr>reqMethod = meth, reqURL = fullURL,
                     reqHeaders =
                       (''x-api-key'', apiKey c) #
                       (if body \<noteq> None then [(''Content-Type'', ''application/json'')] else []),
                     reqBody = body\<rparr> n))"

text \<open>
  \<open>url.Values.Encode\<close> for values that hold one string per key, given as the list of
  pairs in key order: \<open>key=value\<close> joined by \<open>&\<close>, keys and values escaped by
  \<open>url.QueryEscape\<close> (letters, digits and \<open>-_.~\<close> stay, a space becomes \<open>+\<close>, every other
  byte becomes \<open>%XX\<close>).
\<close>

definition shouldEscape :: "char \<Rightarrow> bool" where
  "shouldEscape ch =
     (let n = (of_char ch :: nat)
      in \<not> ((48 \<le> n \<and> n \<le> 57) \<or> (65 \<le> n \<and> n \<le> 90) \<or> (97 \<le> n \<and> n \<le> 122)
             \<or> ch \<in> set ''-_.~''))"

definition upperhex :: "nat \<Rightarrow> char" where
  "upperhex d = ''0123456789ABCDEF'' ! d"

definition escapeByte :: "char \<Rightarrow> string" where
  "escapeByte ch =
     (if ch = CHR '' '' then ''+''
      else if shouldEscape ch then
        [CHR ''%'', upperhex ((of_char ch :: nat) div 16), upperhex ((of_char ch :: nat) mod 16)]
      else [ch])"

definition QueryEscape :: "string \<Rightarrow> string" where
  "QueryEscape s = concat (map escapeByte s)"

primrec Encode :: "(string \<times> string) list \<Rightarrow> string" where
  "Encode [] = []"
| "Encode (kv # rest) =
     QueryEscape (fst kv) @ ''='' @ QueryEscape (snd kv) @
     (if rest = [] then [] else ''&'' @ Encode rest)"

definition doJSONWithQuery ::
  "'w transport \<Rightarrow> Client \<Rightarrow> string \<Rightarrow> string \<Rightarrow> (string \<times> string) list \<Rightarrow> 'w net
     \<Rightarrow> (bytes \<times> error option) \<times> 'w net" where
  "doJSONWithQuery T c meth path query n =
     (let fullURL = apiBaseURL c @ path @ (if query \<noteq> [] then ''?'' @ Encode query else [])
      in case http_NewRequest T meth fullURL of
           Some err \<Rightarrow> ((nilBytes, Some (LibError err)), n)
         | None \<Rightarrow>
             roundTrip T
               \<lparr>reqMethod = meth, reqURL = fullURL,
                reqHeaders = [(''x-api-key'', apiKey c)], reqBody = None\<rparr> n)"

text \<open>The loop of \<open>doJSONWithFallback\<close> over the paths that are left, with \<open>lastErr\<close>.\<close>

fun fallbackLoop ::
  "'w transport \<Rightarrow> Client \<Rightarrow> string \<Rightarrow> goValue option \<Rightarrow> error option \<Rightarrow> string list \<Rightarrow> 'w net
     \<Rightarrow> (bytes \<times> error option) \<times> 'w net" where
  "fallbackLoop T c meth body lastErr [] n = ((nilBytes, lastErr), n)"
| "fallbackLoop T c meth body lastErr (path # rest) n =
     (case doJSON T c meth path body n of
        ((data, None), n') \<Rightarrow> ((data, None), n')
      | ((data, Some err), n') \<Rightarrow>
          if \<not> isRetryableImmichPath err then ((nilBytes, Some err), n')
          else fallbackLoop T c meth body (Some err) rest n')"

definition doJSONWithFallback ::
  "'w transport \<Rightarrow> Client \<Rightarrow> string \<Rightarrow> string list \<Rightarrow> goValue option \<Rightarrow> 'w net
     \<Rightarrow> (bytes \<times> error option) \<times> 'w net" where
  "doJSONWithFallback T c meth paths body n = fallbackLoop T c meth body None paths n"

definition ListAlbums ::
  "'w transport \<Rightarrow> Client \<Rightarrow> 'w net \<Rightarrow> (Album list \<times> error option) \<times> 'w net" where
  "ListAlbums T c n =
     (case doJSONWithFallback T c ''GET'' [''/albums'', ''/album''] None n of
        ((_, Some err), n') \<Rightarrow> (([], Some err), n')
      | ((respBody, None), n') \<Rightarrow>
          (case decodeAlbums respBody of
             (_, Some err) \<Rightarrow> (([], Some err), n')
           | (albums, None) \<Rightarrow> ((albums, None), n')))"

definition CreateAlbum ::
  "'w transport \<Rightarrow> Client \<Rightarrow> string \<Rightarrow> 'w net \<Rightarrow> (error + Album) \<times> 'w net" where
  "CreateAlbum T c name n =
     (let payload = MapValue [(''albumName'', StringValue name)]
      in case doJSONWithFallback T c ''POST'' [''/albums''] (Some payload) n of
           ((_, Some err), n') \<Rightarrow> (Inl err, n')
         | ((respBody, None), n') \<Rightarrow> (decodeAlbum respBody, n'))"

text \<open>The loop of \<open>AddAssetsToAlbum\<close> over its paths: \<open>PUT\<close>, then \<open>POST\<close> on a
  retryable failure.\<close>

fun addAssetsLoop ::
  "'w transport \<Rightarrow> Client \<Rightarrow> goValue \<Rightarrow> error option \<Rightarrow> string list \<Rightarrow> 'w net
     \<Rightarrow> error option \<times> 'w net" where
  "addAssetsLoop T c assetPayload lastErr [] n = (lastErr, n)"
| "addAssetsLoop T c assetPayload lastErr (path # rest) n =
     (case doJSONWithFallback T c ''PUT'' [path] (Some assetPayload) n of
        ((_, None), n1) \<Rightarrow> (None, n1)
      | ((_, Some err), n1) \<Rightarrow>
          if \<not> isRetryableImmichPath err then (Some err, n1)
          else
            (case doJSONWithFallback T c ''POST'' [path] (Some assetPayload) n1 of
               ((_, None), n2) \<Rightarrow> (None, n2)
             | ((_, Some err), n2) \<Rightarrow>
                 if \<not> isRetryableImmichPath err then (Some err, n2)
                 else addAssetsLoop T c assetPayload (Some err) rest n2))"

definition AddAssetsToAlbum ::
  "'w transport \<Rightarrow> Client \<Rightarrow> string \<Rightarrow> string list \<Rightarrow> 'w net \<Rightarrow> error option \<times> 'w net" where
  "AddAssetsToAlbum T c albumID assetIDs n =
     (if albumID = [] \<or> assetIDs = [] then (None, n)
      else
        (let assetPayload = MapValue [(''ids'', StringsValue assetIDs)];
             paths = [''/albums/'' @ albumID @ ''/assets'']
         in addAssetsLoop T c assetPayload None paths n))"

definition SearchAssets ::
  "'w transport \<Rightarrow> Client \<Rightarrow> SearchAssetsRequest \<Rightarrow> 'w net
     \<Rightarrow> (SearchAssetsResponse option \<times> error option) \<times> 'w net" where
  "SearchAssets T c req n =
     (let paths = [''/search/metadata'', ''/search/assets'', ''/search'']
      in case doJSONWithFallback T c ''POST'' paths (Some (SearchValue req)) n of
           ((_, Some err), n') \<Rightarrow> ((None, Some err), n')
         | ((respBody, None), n') \<Rightarrow> (decodeSearchAssets respBody, n'))"

text \<open>
  \<open>withQuery\<close> for the calls of \<open>ListAssets\<close> (no string parameters): the order, if
  any, and every integer parameter that is positive.  The result stands for the
  \<open>url.Values\<close> it builds: the integer parameters are given in key order, after
  \<open>order\<close>, so the pairs are in the order in which \<open>Encode\<close> writes them.  Go's \<open>int\<close> has 64
  bits; \<open>wrap64\<close> is the value that a product wraps around to.
\<close>

definition withQuery :: "string \<Rightarrow> (string \<times> int) list \<Rightarrow> (string \<times> string) list" where
  "withQuery ord ints =
     (if ord \<noteq> [] then [(''order'', ord)] else []) @
     map (\<lambda>kv. (fst kv, Itoa (snd kv))) (filter (\<lambda>kv. snd kv > 0) ints)"

definition wrap64 :: "int \<Rightarrow> int" where
  "wrap64 i = (i + 2 ^ 63) mod 2 ^ 64 - 2 ^ 63"

text \<open>The two nested loops of \<open>ListAssets\<close>, over the pairs of a path and a query that
  are left.\<close>

fun listAssetsLoop ::
  "'w transport \<Rightarrow> Client \<Rightarrow> error option \<Rightarrow> (string \<times> (string \<times> string) list) list \<Rightarrow> 'w net
     \<Rightarrow> (SearchAssetsResponse option \<times> error option) \<times> 'w net" where
  "listAssetsLoop T c lastErr [] n = ((None, lastErr), n)"
| "listAssetsLoop T c lastErr (pq # rest) n =
     (case doJSONWithQuery T c ''GET'' (fst pq) (snd pq) n of
        ((respBody, None), n') \<Rightarrow> (decodeSearchAssets respBody, n')
      | ((_, Some err), n') \<Rightarrow>
          if \<not> isRetryableImmichPath err then ((None, Some err), n')
          else listAssetsLoop T c (Some err) rest n')"

definition ListAssets ::
  "'w transport \<Rightarrow> Client \<Rightarrow> int \<Rightarrow> int \<Rightarrow> string \<Rightarrow> 'w net
     \<Rightarrow> (SearchAssetsResponse option \<times> error option) \<times> 'w net" where
  "ListAssets T c page0 size0 ord n =
     (let page = (if page0 < 1 then 1 else page0);
          size = (if size0 < 1 then 1 else size0);
          skip = wrap64 ((page - 1) * size);
          queryVariants =
            [withQuery ord [(''page'', page), (''size'', size)],
             withQuery ord [(''skip'', skip), (''take'', size)],
             withQuery [] [(''page'', page), (''size'', size)],
             withQuery [] [(''skip'', skip), (''take'', size)]];
          paths = [''/assets'', ''/asset'', ''/assets/owned'', ''/assets/all'']
      in listAssetsLoop T c None
           (concat (map (\<lambda>path. map (\<lambda>query. (path, query)) queryVariants) paths)) n)"

section \<open>The album binder\<close>

text \<open>The first album whose display name equals the configured name up to case gives
  the identifier; the empty string when there is none.\<close>

primrec findAlbumID :: "golib \<Rightarrow> string \<Rightarrow> Album list \<Rightarrow> string" where
  "findAlbumID L name [] = []"
| "findAlbumID L name (album # rest) =
     (if strings_EqualFold L (DisplayName album) name then Album_ID album
      else findAlbumID L name rest)"

definition AddAssetToAlbum ::
  "golib \<Rightarrow> 'w transport \<Rightarrow> Config \<Rightarrow> string \<Rightarrow> 'w net \<Rightarrow> error option \<times> 'w net" where
  "AddAssetToAlbum L T cfg assetID0 n =
     (if assetID0 = [] then (None, n)
      else
        (let assetID = TrimLeft assetID0 ''/''
         in if \<not> MatchString uuidPattern assetID then (None, n)
            else if BaseURL cfg = [] \<or> APIKey cfg = [] then (None, n)
            else if AlbumID cfg = [] \<and> AlbumName cfg = [] then (None, n)
            else
              (case NewClient L cfg of
                 Inl err \<Rightarrow> (Some err, n)
               | Inr client \<Rightarrow>
                   if AlbumID cfg \<noteq> [] then
                     AddAssetsToAlbum T client (AlbumID cfg) [assetID] n
                   else
                     (case ListAlbums T client n of
                        ((_, Some err), n1) \<Rightarrow> (Some err, n1)
                      | ((albums, None), n1) \<Rightarrow>
                          (let albumID = findAlbumID L (AlbumName cfg) albums
                           in if albumID = [] then
                                (case CreateAlbum T client (AlbumName cfg) n1 of
                                   (Inl err, n2) \<Rightarrow> (Some err, n2)
                                 | (Inr created, n2) \<Rightarrow>
                                     AddAssetsToAlbum T client (Album_ID created) [assetID] n2)
                              else AddAssetsToAlbum T client albumID [assetID] n1)))))"

section \<open>The HTTP handler for the asset list\<close>

text \<open>
  \<open>LoadConfig\<close> reads the process environment, a map from variable names to values
  (\<open>os.Getenv\<close> gives the empty string for a variable that is not set,
  \<open>os.LookupEnv\<close> tells the difference).
\<close>

definition Getenv :: "(string \<rightharpoonup> string) \<Rightarrow> string \<Rightarrow> string" where
  "Getenv env key = (case env key of None \<Rightarrow> [] | Some v \<Rightarrow> v)"

definition zeroConfig :: Config where
  "zeroConfig = \<lparr>BaseURL = [], APIKey = [], AlbumName = [], AlbumID = []\<rparr>"

definition LoadConfig :: "golib \<Rightarrow> (string \<rightharpoonup> string) \<Rightarrow> Config \<times> error option" where
  "LoadConfig L env =
     (let baseURL = TrimSpace (Getenv env ''MEMOS_IMMICH_URL'');
          apiKey = TrimSpace (Getenv env ''MEMOS_IMMICH_API_KEY'');
          albumID = TrimSpace (Getenv env ''MEMOS_IMMICH_ALBUM_ID'');
          albumNameSet = (env ''MEMOS_IMMICH_ALBUM_NAME'' \<noteq> None);
          albumName = TrimSpace (Getenv env ''MEMOS_IMMICH_ALBUM_NAME'')
      in if baseURL = [] \<or> apiKey = [] then (zeroConfig, None)
         else
           (case url_Parse L baseURL of
              Inl err \<Rightarrow> (zeroConfig, Some (LibError err))
            | Inr _ \<Rightarrow>
                (\<lparr>BaseURL = baseURL, APIKey = apiKey,
                  AlbumName = (if \<not> albumNameSet then ''Memos'' else albumName),
                  AlbumID = albumID\<rparr>, None)))"

text \<open>
  What the handler \<open>listAssets\<close> of \<open>server/router/immich\<close> answers: an HTTP error
  (status, message, internal error) or the JSON document with the assets and the next
  page token.  \<open>Panicked\<close> stands for the nil dereference that the handler would run
  into if the adapter returned neither a result nor an error.
\<close>

record assetView =
  view_id :: string
  view_filename :: string
  view_mimeType :: string
  view_size :: int
  view_type :: string
  view_thumbnailUrl :: string
  view_previewUrl :: string

datatype response =
    HTTPError int string "error option"
  | JSONAssets "assetView list" string
  | Panicked

definition assetViewOf :: "Asset \<Rightarrow> assetView" where
  "assetViewOf asset =
     \<lparr>view_id = ID asset, view_filename = OriginalFileName asset,
      view_mimeType = OriginalMimeType asset, view_size = FileSizeInByte asset,
      view_type = Type asset,
      view_thumbnailUrl = ''/file/immich/'' @ ID asset @ ''?size=thumbnail'',
      view_previewUrl = ''/file/immich/'' @ ID asset @ ''?size=fullsize''\<rparr>"

definition respondAssets :: "SearchAssetsResponse option \<Rightarrow> response" where
  "respondAssets searchResponse =
     (case searchResponse of
        None \<Rightarrow> Panicked
      | Some r \<Rightarrow>
          JSONAssets (map assetViewOf (Assets r))
            (if NextPageToken r = [] \<and> NextPage r > 0 then Itoa (NextPage r)
             else NextPageToken r))"

text \<open>A query parameter that is read as a positive integer (\<open>strconv.Atoi\<close>), with its
  default.\<close>

definition positiveParam :: "string \<Rightarrow> int \<Rightarrow> int" where
  "positiveParam raw dflt =
     (if raw \<noteq> [] then
        (case ParseInt raw of
           Some parsed \<Rightarrow> if parsed > 0 then parsed else dflt
         | None \<Rightarrow> dflt)
      else dflt)"

text \<open>
  The handler.  \<open>authenticated\<close> says whether \<open>getCurrentUser\<close> finds a user (it
  never returns an error); \<open>env\<close> is the environment; the two strings are the query
  parameters \<open>pageSize\<close> and \<open>pageToken\<close> of the incoming request.
\<close>

definition listAssets ::
  "golib \<Rightarrow> 'w transport \<Rightarrow> bool \<Rightarrow> (string \<rightharpoonup> string) \<Rightarrow> string \<Rightarrow> string \<Rightarrow> 'w net
     \<Rightarrow> response \<times> 'w net" where
  "listAssets L T authenticated env pageSizeParam pageTokenParam n =
     (if \<not> authenticated then (HTTPError 401 ''unauthorized access'' None, n)
      else
        (case LoadConfig L env of
           (_, Some err) \<Rightarrow> (HTTPError 500 ''failed to load immich config'' (Some err), n)
         | (cfg, None) \<Rightarrow>
             if \<not> Enabled cfg then (HTTPError 400 ''immich is not configured'' None, n)
             else
               (let pageSize = positiveParam pageSizeParam 60;
                    page = positiveParam pageTokenParam 1
                in case NewClient L cfg of
                     Inl err \<Rightarrow>
                       (HTTPError 500 ''failed to initialize immich client'' (Some err), n)
                   | Inr client \<Rightarrow>
                       (case ListAssets T client page pageSize ''desc'' n of
                          ((searchResponse, None), n1) \<Rightarrow> (respondAssets searchResponse, n1)
                        | ((_, Some _), n1) \<Rightarrow>
                            (case SearchAssets T client
                                    \<lparr>Page = page, Size = pageSize, Order = ''desc'', AlbumIDs = []\<rparr>
                                    n1 of
                               ((_, Some err), n2) \<Rightarrow>
                                 (HTTPError 502 ''failed to fetch immich assets'' (Some err), n2)
                             | ((searchResponse, None), n2) \<Rightarrow>
                                 (respondAssets searchResponse, n2))))))"

section \<open>The photo service\<close>

text \<open>
  The photo service is not part of the repository.  Idempotence of the album binder is
  a property of the adapter together with a service that keeps albums, so it is stated
  for the service modelled here: it holds a list of albums, each with an identifier, a
  name and the assets in it.  \<open>GET /albums\<close> answers 200 with the albums as a JSON
  array of objects with the members \<open>id\<close> and \<open>albumName\<close>; \<open>POST /albums\<close> with a
  body \<^verbatim>\<open>{"albumName": name}\<close> appends an album with a fresh, non-empty identifier and
  answers 201 with it; \<open>PUT /albums/{id}/assets\<close> with a body \<^verbatim>\<open>{"ids": [...]}\<close> puts
  the assets that are not yet in the album into it and answers 200, also when all of
  them are in it already; everything else is answered 404 (400 for a body of another
  form).  The bodies are given by their scanned value; their text is left empty, since
  the decoders of albums never read it.
\<close>

record serverAlbum =
  sa_id :: string
  sa_name :: string
  sa_assets :: "string list"

definition jsonText :: "string \<Rightarrow> bytes" where
  "jsonText s = Bytes [] (Some (JString s))"

definition albumJSON :: "serverAlbum \<Rightarrow> bytes" where
  "albumJSON a =
     Bytes [] (Some (JObject [(''id'', jsonText (sa_id a)), (''albumName'', jsonText (sa_name a))]))"

definition albumsJSON :: "serverAlbum list \<Rightarrow> bytes" where
  "albumsJSON w = Bytes [] (Some (JArray (map albumJSON w)))"

definition newAlbum :: "serverAlbum list \<Rightarrow> string \<Rightarrow> serverAlbum" where
  "newAlbum w name =
     \<lparr>sa_id = ''album-'' @ Itoa (int (length w)), sa_name = name, sa_assets = []\<rparr>"

primrec addAssetsTo :: "string \<Rightarrow> string list \<Rightarrow> serverAlbum list \<Rightarrow> serverAlbum list" where
  "addAssetsTo albumID ids [] = []"
| "addAssetsTo albumID ids (a # w) =
     (if sa_id a = albumID then a\<lparr>sa_assets := fold List.insert ids (sa_assets a)\<rparr> # w
      else a # addAssetsTo albumID ids w)"

fun createPayload :: "goValue option \<Rightarrow> string option" where
  "createPayload (Some (MapValue [(key, StringValue name)])) =
     (if key = ''albumName'' then Some name else None)"
| "createPayload _ = None"

fun idsPayload :: "goValue option \<Rightarrow> string list option" where
  "idsPayload (Some (MapValue [(key, StringsValue ids)])) =
     (if key = ''ids'' then Some ids else None)"
| "idsPayload _ = None"

definition answerWith :: "int \<Rightarrow> bytes \<Rightarrow> outcome" where
  "answerWith StatusCode respBody = Responded StatusCode respBody None"

definition serve :: "string \<Rightarrow> serverAlbum list \<Rightarrow> request \<Rightarrow> outcome \<times> serverAlbum list" where
  "serve api w req =
     (if reqMethod req = ''GET'' \<and> reqURL req = api @ ''/albums'' then
        (answerWith 200 (albumsJSON w), w)
      else if reqMethod req = ''POST'' \<and> reqURL req = api @ ''/albums'' then
        (case createPayload (reqBody req) of
           None \<Rightarrow> (answerWith 400 nilBytes, w)
         | Some name \<Rightarrow> (answerWith 201 (albumJSON (newAlbum w name)), w @ [newAlbum w name]))
      else if reqMethod req = ''PUT'' then
        (case find (\<lambda>a. reqURL req = api @ ''/albums/'' @ sa_id a @ ''/assets'') w of
           None \<Rightarrow> (answerWith 404 nilBytes, w)
         | Some a \<Rightarrow>
             (case idsPayload (reqBody req) of
                None \<Rightarrow> (answerWith 400 nilBytes, w)
              | Some ids \<Rightarrow>
                  (answerWith 200 (Bytes [] (Some (JArray []))), addAssetsTo (sa_id a) ids w)))
      else (answerWith 404 nilBytes, w))"

definition photoService :: "string \<Rightarrow> serverAlbum list transport" where
  "photoService api =
     \<lparr>json_Marshal = (\<lambda>v. None), http_NewRequest = (\<lambda>meth u. None), client_Do = serve api\<rparr>"

section \<open>The specification's words\<close>

text \<open>
  The definitions of this section are not translations of code.  They say what the
  specification says, in its own terms, so that the theorems below can compare the code
  with it.
\<close>



text \<open>The envelope shapes: \<open>x\<close> is a JSON array with the given elements; \<open>x\<close> is a JSON
  object whose member \<open>key\<close> is \<open>v\<close> (the last one, should the key be repeated); \<open>x\<close> is
  a JSON object without a member \<open>key\<close>.\<close>

definition isArrayOf :: "bytes \<Rightarrow> bytes list \<Rightarrow> bool" where
  "isArrayOf x elems = (scanned x = Some (JArray elems))"

definition hasMember :: "bytes \<Rightarrow> string \<Rightarrow> bytes \<Rightarrow> bool" where
  "hasMember x key v =
     (case scanned x of
        Some (JObject members) \<Rightarrow> map_of (rev members) key = Some v
      | _ \<Rightarrow> False)"

definition lacksMember :: "bytes \<Rightarrow> string \<Rightarrow> bool" where
  "lacksMember x key =
     (case scanned x of
        Some (JObject members) \<Rightarrow> map_of (rev members) key = None
      | _ \<Rightarrow> False)"

text \<open>The prober's contract as the specification words it.  A failure is retryable when
  it is an HTTP status 404 or 405.  \<open>attemptAll\<close> attempts every candidate in list order,
  each one in the state its predecessor left.  The decisive attempt is the first that
  is not a retryable failure, or the last one when all are; the prober returns what the
  decisive attempt returned and stops there, so that it has made \<open>attemptCount\<close>
  attempts.  \<open>requestsFor\<close> is the request a candidate hands to the HTTP client (none,
  when building the request fails).\<close>

definition retryableFailure :: "error option \<Rightarrow> bool" where
  "retryableFailure e =
     (case e of Some (httpStatusError StatusCode Message) \<Rightarrow> StatusCode = 404 \<or> StatusCode = 405
      | _ \<Rightarrow> False)"

fun attemptAll ::
  "'w transport \<Rightarrow> Client \<Rightarrow> string \<Rightarrow> goValue option \<Rightarrow> string list \<Rightarrow> 'w net
     \<Rightarrow> ((bytes \<times> error option) \<times> 'w net) list" where
  "attemptAll T c meth body [] n = []"
| "attemptAll T c meth body (path # rest) n =
     (let r = doJSON T c meth path body n in r # attemptAll T c meth body rest (snd r))"

definition decisive :: "((bytes \<times> error option) \<times> 'w net) list \<Rightarrow> (bytes \<times> error option) \<times> 'w net" where
  "decisive attempts =
     (case dropWhile (\<lambda>a. retryableFailure (snd (fst a))) attempts of
        [] \<Rightarrow> last attempts
      | a # _ \<Rightarrow> a)"

definition proberContract ::
  "((bytes \<times> error option) \<times> 'w net) list \<Rightarrow> 'w net \<Rightarrow> (bytes \<times> error option) \<times> 'w net" where
  "proberContract attempts n =
     (if attempts = [] then ((nilBytes, None), n)
      else
        (case decisive attempts of ((data, err), n') \<Rightarrow>
           ((if err = None then data else nilBytes, err), n')))"

definition attemptCount :: "((bytes \<times> error option) \<times> 'w net) list \<Rightarrow> nat" where
  "attemptCount attempts =
     min (length attempts) (Suc (length (takeWhile (\<lambda>a. retryableFailure (snd (fst a))) attempts)))"

definition requestsFor ::
  "'w transport \<Rightarrow> Client \<Rightarrow> string \<Rightarrow> goValue option \<Rightarrow> string \<Rightarrow> request list" where
  "requestsFor T c meth body path =
     (if (case body of None \<Rightarrow> None | Some v \<Rightarrow> json_Marshal T v) \<noteq> None
         \<or> http_NewRequest T meth (apiBaseURL c @ path) \<noteq> None
      then []
      else [\<lparr>reqMethod = meth, reqURL = apiBaseURL c @ path,
             reqHeaders =
               (''x-api-key'', apiKey c) #
               (if body \<noteq> None then [(''Content-Type'', ''application/json'')] else []),
             reqBody = body\<rparr>])"

text \<open>Link extraction as the specification words it: the first UUID-shaped substring
  among some texts, in their order, and the host check against the configured base
  URL.\<close>

definition firstUUID :: "string list \<Rightarrow> string option" where
  "firstUUID texts =
     (case filter (\<lambda>m. m \<noteq> []) (map (FindString uuidPattern) texts) of
        [] \<Rightarrow> None
      | m # _ \<Rightarrow> Some m)"

definition hostAccepted :: "golib \<Rightarrow> Config \<Rightarrow> URL \<Rightarrow> bool" where
  "hostAccepted L cfg parsed =
     (if BaseURL cfg = [] then True
      else
        (case url_Parse L (BaseURL cfg) of
           Inl _ \<Rightarrow> False
         | Inr base \<Rightarrow> Host base \<noteq> [] \<and> strings_EqualFold L (Host parsed) (Host base)))"

text \<open>The album binder as the specification words it, on the state of the photo
  service: the album is the configured one, or the first whose name equals the
  configured name up to case, or a new album of that name; then the asset is put into
  it.  \<open>serviceReady\<close> says what the binder relies on: every album has an identifier; an
  explicitly configured album exists; otherwise a name is configured, and it equals
  itself under \<open>EqualFold\<close>.  \<open>binderRequests\<close> are the requests of one run.\<close>

definition named :: "golib \<Rightarrow> Config \<Rightarrow> serverAlbum \<Rightarrow> bool" where
  "named L cfg a = strings_EqualFold L (sa_name a) (AlbumName cfg)"

definition resolveAlbum :: "golib \<Rightarrow> Config \<Rightarrow> serverAlbum list \<Rightarrow> string \<times> serverAlbum list" where
  "resolveAlbum L cfg w =
     (if AlbumID cfg \<noteq> [] then (AlbumID cfg, w)
      else
        (case find (named L cfg) w of
           Some a \<Rightarrow> (sa_id a, w)
         | None \<Rightarrow> (sa_id (newAlbum w (AlbumName cfg)), w @ [newAlbum w (AlbumName cfg)])))"

definition ensured :: "golib \<Rightarrow> Config \<Rightarrow> string \<Rightarrow> serverAlbum list \<Rightarrow> serverAlbum list" where
  "ensured L cfg assetID w =
     (case resolveAlbum L cfg w of (albumID, w') \<Rightarrow> addAssetsTo albumID [assetID] w')"

definition albumOf :: "serverAlbum \<Rightarrow> Album" where
  "albumOf a = zeroAlbum\<lparr>Album_ID := sa_id a, Album_AlbumName := sa_name a\<rparr>"

definition serviceReady :: "golib \<Rightarrow> Config \<Rightarrow> serverAlbum list \<Rightarrow> bool" where
  "serviceReady L cfg w =
     ((\<forall>a\<in>set w. sa_id a \<noteq> [])
      \<and> (if AlbumID cfg \<noteq> [] then \<exists>a\<in>set w. sa_id a = AlbumID cfg
         else AlbumName cfg \<noteq> [] \<and> strings_EqualFold L (AlbumName cfg) (AlbumName cfg)))"

definition binderRequests ::
  "golib \<Rightarrow> Config \<Rightarrow> Client \<Rightarrow> string \<Rightarrow> serverAlbum list \<Rightarrow> request list" where
  "binderRequests L cfg c assetID w =
     (let T = photoService (apiBaseURL c)
      in (if AlbumID cfg \<noteq> [] then []
          else
            requestsFor T c ''GET'' None ''/albums'' @
            (case find (named L cfg) w of
               Some a \<Rightarrow> []
             | None \<Rightarrow>
                 requestsFor T c ''POST''
                   (Some (MapValue [(''albumName'', StringValue (AlbumName cfg))])) ''/albums'')) @
         requestsFor T c ''PUT'' (Some (MapValue [(''ids'', StringsValue [assetID])]))
           (''/albums/'' @ fst (resolveAlbum L cfg w) @ ''/assets''))"

text \<open>An identifier that is UUID-shaped, as the specification and the hand-off note
  (\<open>Skips add if asset ID is not a valid UUID\<close>) word the binder's gate: the whole
  identifier matches the pattern.\<close>

definition isUUID :: "string \<Rightarrow> bool" where
  "isUUID s = (length s = length uuidPattern \<and> matchesAt uuidPattern s)"

section \<open>Example inputs\<close>

text \<open>The records \<^verbatim>\<open>{"assetId":"X"}\<close>, \<^verbatim>\<open>{"id":"/abc-123"}\<close> and
  \<^verbatim>\<open>{"checksum":"550e8400-e29b-41d4-a716-446655440000"}\<close>, and the four envelopes around
  the first two.\<close>

definition recordAssetId :: bytes where
  \<open>recordAssetId =
     Bytes ''{"assetId":"X"}''
       (Some (JObject [(''assetId'', Bytes ''"X"'' (Some (JString ''X'')))]))\<close>

definition recordSlashId :: bytes where
  \<open>recordSlashId =
     Bytes ''{"id":"/abc-123"}''
       (Some (JObject [(''id'', Bytes ''"/abc-123"'' (Some (JString ''/abc-123'')))]))\<close>


definition twoRecords :: "bytes list" where
  "twoRecords = [recordAssetId, recordSlashId]"

definition envelopeArray :: bytes where
  \<open>envelopeArray =
     Bytes ''[{"assetId":"X"},{"id":"/abc-123"}]'' (Some (JArray twoRecords))\<close>

definition envelopeAssets :: bytes where
  \<open>envelopeAssets =
     Bytes ''{"assets":[{"assetId":"X"},{"id":"/abc-123"}]}''
       (Some (JObject [(''assets'', envelopeArray)]))\<close>

definition envelopeItems :: bytes where
  \<open>envelopeItems =
     Bytes ''{"items":[{"assetId":"X"},{"id":"/abc-123"}]}''
       (Some (JObject [(''items'', envelopeArray)]))\<close>

definition envelopeAssetsItems :: bytes where
  \<open>envelopeAssetsItems =
     Bytes ''{"assets":{"items":[{"assetId":"X"},{"id":"/abc-123"}]}}''
       (Some (JObject [(''assets'', envelopeItems)]))\<close>

text \<open>The standard library on the inputs of the examples, with \<open>EqualFold\<close> as it is on
  ASCII text; a transport that answers from a script of outcomes; links and
  configurations.\<close>

definition exampleUUID :: string where
  "exampleUUID = ''550e8400-e29b-41d4-a716-446655440000''"

definition hostOnly :: "string \<Rightarrow> URL" where
  "hostOnly h = \<lparr>Host = h, Path = [], RawQuery = []\<rparr>"

definition exampleLib :: golib where
  "exampleLib =
     \<lparr>url_Parse = (\<lambda>s.
        if s = ''https://photos.example/share/'' @ exampleUUID then
          Inr \<lparr>Host = ''photos.example'', Path = ''/share/'' @ exampleUUID, RawQuery = []\<rparr>
        else if s = ''/share/'' @ exampleUUID then
          Inr \<lparr>Host = [], Path = ''/share/'' @ exampleUUID, RawQuery = []\<rparr>
        else if s = ''https://photos.example'' then Inr (hostOnly ''photos.example'')
        else if s = ''https://other.example'' then Inr (hostOnly ''other.example'')
        else if s = ''https://photos.example/api'' then
          Inr \<lparr>Host = ''photos.example'', Path = ''/api'', RawQuery = []\<rparr>
        else Inl ''parse error''),
      url_Query = (\<lambda>q. []),
      strings_EqualFold = (\<lambda>a b. map toUpper a = map toUpper b)\<rparr>"

definition exampleConfig :: Config where
  "exampleConfig =
     \<lparr>BaseURL = ''https://photos.example'', APIKey = ''key'', AlbumName = ''Memos'', AlbumID = []\<rparr>"

definition scripted :: "outcome list transport" where
  "scripted =
     \<lparr>json_Marshal = (\<lambda>v. None),
      http_NewRequest = (\<lambda>meth u. None),
      client_Do = (\<lambda>w req.
        case w of [] \<Rightarrow> (DoFailed ''nothing scripted'', []) | out # rest \<Rightarrow> (out, rest))\<rparr>"

definition answer :: "int \<Rightarrow> outcome" where
  "answer StatusCode = Responded StatusCode (Bytes [] None) None"

definition exampleClient :: Client where
  "exampleClient = \<lparr>apiBaseURL = ''https://photos.example/api'', apiKey = ''key''\<rparr>"

definition getRequest :: "string \<Rightarrow> request" where
  "getRequest path =
     \<lparr>reqMethod = ''GET'', reqURL = ''https://photos.example/api'' @ path,
      reqHeaders = [(''x-api-key'', ''key'')], reqBody = None\<rparr>"

definition noBaseConfig :: Config where
  "noBaseConfig = \<lparr>BaseURL = [], APIKey = [], AlbumName = [], AlbumID = []\<rparr>"

definition otherHostConfig :: Config where
  "otherHostConfig =
     \<lparr>BaseURL = ''https://other.example'', APIKey = ''key'', AlbumName = ''Memos'', AlbumID = []\<rparr>"

definition shareLink :: string where
  "shareLink = ''https://photos.example/share/550e8400-e29b-41d4-a716-446655440000''"

definition sharePath :: string where
  "sharePath = ''/share/550e8400-e29b-41d4-a716-446655440000''"

text \<open>An environment that configures the integration, the empty JSON array as a
  response body, and the requests of the examples.\<close>

definition exampleEnv :: "string \<rightharpoonup> string" where
  "exampleEnv =
     [''MEMOS_IMMICH_URL'' \<mapsto> ''https://photos.example'', ''MEMOS_IMMICH_API_KEY'' \<mapsto> ''key'']"

definition emptyList :: bytes where
  "emptyList = Bytes ''[]'' (Some (JArray []))"

definition firstListRequest :: request where
  "firstListRequest =
     \<lparr>reqMethod = ''GET'',
      reqURL = ''https://photos.example/api/assets?order=desc&page=1&size=60'',
      reqHeaders = [(''x-api-key'', ''key'')], reqBody = None\<rparr>"

definition firstSearchRequest :: request where
  "firstSearchRequest =
     \<lparr>reqMethod = ''POST'', reqURL = ''https://photos.example/api/search/metadata'',
      reqHeaders = [(''x-api-key'', ''key''), (''Content-Type'', ''application/json'')],
      reqBody = Some (SearchValue \<lparr>Page = 1, Size = 60, Order = ''desc'', AlbumIDs = []\<rparr>)\<rparr>"

definition listAlbumsRequest :: request where
  "listAlbumsRequest =
     \<lparr>reqMethod = ''GET'', reqURL = ''https://photos.example/api/albums'',
      reqHeaders = [(''x-api-key'', ''key'')], reqBody = None\<rparr>"

definition createAlbumRequest :: request where
  "createAlbumRequest =
     \<lparr>reqMethod = ''POST'', reqURL = ''https://photos.example/api/albums'',
      reqHeaders = [(''x-api-key'', ''key''), (''Content-Type'', ''application/json'')],
      reqBody = Some (MapValue [(''albumName'', StringValue ''Memos'')])\<rparr>"

definition memosAlbum :: serverAlbum where
  "memosAlbum = \<lparr>sa_id = ''album-0'', sa_name = ''Memos'', sa_assets = [exampleUUID]\<rparr>"

definition putAssetRequest :: request where
  "putAssetRequest =
     \<lparr>reqMethod = ''PUT'', reqURL = ''https://photos.example/api/albums/album-0/assets'',
      reqHeaders = [(''x-api-key'', ''key''), (''Content-Type'', ''application/json'')],
      reqBody = Some (MapValue [(''ids'', StringsValue [exampleUUID])])\<rparr>"

text \<open>A UUID with two more letters on either side, the album that holds it, and the
  request that adds it.\<close>

definition paddedUUID :: string where
  "paddedUUID = ''zz550e8400-e29b-41d4-a716-446655440000zz''"

definition paddedAlbum :: serverAlbum where
  "paddedAlbum = \<lparr>sa_id = ''album-0'', sa_name = ''Memos'', sa_assets = [paddedUUID]\<rparr>"

definition putPaddedRequest :: request where
  "putPaddedRequest =
     \<lparr>reqMethod = ''PUT'', reqURL = ''https://photos.example/api/albums/album-0/assets'',
      reqHeaders = [(''x-api-key'', ''key''), (''Content-Type'', ''application/json'')],
      reqBody = Some (MapValue [(''ids'', StringsValue [paddedUUID])])\<rparr>"

section \<open>Lemmas\<close>

lemmas decode_defs =
  decodeAssetRaw_def unmarshalAsset_def unmarshalStruct_def decodeMember_def
  setAssetField_def keyIs_def stringField_def intField_def zeroAsset_def TrimLeft_def
  toUpper_def

lemma decodeAssetRaw_recordAssetId:
  "decodeAssetRaw recordAssetId = (zeroAsset\<lparr>ID := ''X'', AssetID := ''X''\<rparr>, None)"
  by (simp add: recordAssetId_def decode_defs)

lemma decodeAssetRaw_recordSlashId:
  "decodeAssetRaw recordSlashId = (zeroAsset\<lparr>ID := ''abc-123''\<rparr>, None)"
  by (simp add: recordSlashId_def decode_defs)


lemma decodeAssetLoop_wellformed:
  "\<forall>r\<in>set rs. snd (decodeAssetRaw r) = None \<Longrightarrow>
     decodeAssetLoop acc rs = (acc @ map (\<lambda>r. fst (decodeAssetRaw r)) rs, None)"
proof (induction rs arbitrary: acc)
  case Nil
  then show ?case by simp
next
  case (Cons r rs)
  obtain a where a: "decodeAssetRaw r = (a, None)"
    using Cons.prems by (cases "decodeAssetRaw r") auto
  have "decodeAssetLoop (acc @ [a]) rs =
          ((acc @ [a]) @ map (\<lambda>r. fst (decodeAssetRaw r)) rs, None)"
    using Cons.prems by (intro Cons.IH) simp
  then show ?case
    by (simp add: a)
qed

lemma decodeAssetSlice_wellformed:
  "\<forall>r\<in>set rs. snd (decodeAssetRaw r) = None \<Longrightarrow>
     decodeAssetSlice rs = (map (\<lambda>r. fst (decodeAssetRaw r)) rs, None)"
  by (simp add: decodeAssetSlice_def decodeAssetLoop_wellformed)

lemmas envelope_defs =
  isArrayOf_def hasMember_def lacksMember_def decodeAssetsFromUnknown_def
  unmarshalRawArray_def unmarshalRawObject_def

lemma envelope_bare_array:
  "isArrayOf data rs \<Longrightarrow> decodeAssetsFromUnknown data = decodeAssetSlice rs"
  by (simp add: envelope_defs)

lemma envelope_assets_array:
  "hasMember data ''assets'' a \<Longrightarrow> isArrayOf a rs \<Longrightarrow>
     decodeAssetsFromUnknown data = decodeAssetSlice rs"
  by (auto simp: envelope_defs split: option.splits json.splits)

lemma envelope_assets_items:
  "hasMember data ''assets'' a \<Longrightarrow> hasMember a ''items'' i \<Longrightarrow> isArrayOf i rs \<Longrightarrow>
     decodeAssetsFromUnknown data = decodeAssetSlice rs"
  by (auto simp: envelope_defs split: option.splits json.splits)

lemma envelope_items:
  "lacksMember data ''assets'' \<Longrightarrow> hasMember data ''items'' i \<Longrightarrow> isArrayOf i rs \<Longrightarrow>
     decodeAssetsFromUnknown data = decodeAssetSlice rs"
  by (auto simp: envelope_defs split: option.splits json.splits)

lemma retryableFailure_Some [simp]:
  "retryableFailure (Some e) = isRetryableImmichPath e"
  by (simp add: retryableFailure_def isRetryableImmichPath_def split: error.splits)

lemma retryableFailure_None [simp]: "\<not> retryableFailure None"
  by (simp add: retryableFailure_def)

lemma decisive_single [simp]: "decisive [a] = a"
  by (simp add: decisive_def)

lemma decisive_Cons [simp]:
  "rest \<noteq> [] \<Longrightarrow>
     decisive (a # rest) = (if retryableFailure (snd (fst a)) then decisive rest else a)"
  by (simp add: decisive_def cong: list.case_cong)

lemma roundTrip_sent: "sent (snd (roundTrip T req n)) = sent n @ [req]"
  by (simp add: roundTrip_def Let_def split: prod.splits outcome.splits option.splits)

lemma doJSON_sent:
  "sent (snd (doJSON T c meth path body n)) = sent n @ requestsFor T c meth body path"
  by (auto simp: doJSON_def requestsFor_def roundTrip_sent Let_def split: option.splits)

lemma attemptAll_length [simp]: "length (attemptAll T c meth body paths n) = length paths"
  by (induction paths arbitrary: n) (simp_all add: Let_def)

lemma attemptAll_Nil_iff [simp]: "attemptAll T c meth body paths n = [] \<longleftrightarrow> paths = []"
  by (cases paths) (simp_all add: Let_def)

lemma fallbackLoop_contract:
  "fallbackLoop T c meth body lastErr paths n =
     (if paths = [] then ((nilBytes, lastErr), n)
      else proberContract (attemptAll T c meth body paths n) n)"
proof (induction paths arbitrary: lastErr n)
  case Nil
  then show ?case by simp
next
  case (Cons path rest)
  obtain data err n' where d: "doJSON T c meth path body n = ((data, err), n')"
    by (metis surj_pair)
  show ?case
  proof (cases "retryableFailure err")
    case False
    then show ?thesis
      by (cases err; cases rest) (simp_all add: d proberContract_def Let_def)
  next
    case True
    then obtain e where e: "err = Some e" "isRetryableImmichPath e"
      by (cases err) simp_all
    show ?thesis
    proof (cases rest)
      case Nil
      then show ?thesis
        by (simp add: d e proberContract_def)
    next
      case (Cons p ps)
      then have "fallbackLoop T c meth body (Some e) rest n' =
                proberContract (attemptAll T c meth body rest n') n'"
        using Cons.IH [of "Some e" n'] by simp
      then show ?thesis
        using Cons by (simp add: d e proberContract_def Let_def)
    qed
  qed
qed

lemma prober_contract:
  "doJSONWithFallback T c meth paths body n = proberContract (attemptAll T c meth body paths n) n"
  by (simp add: doJSONWithFallback_def fallbackLoop_contract proberContract_def)

lemma fallbackLoop_sent:
  "sent (snd (fallbackLoop T c meth body lastErr paths n)) =
     sent n @ concat (map (requestsFor T c meth body)
       (take (attemptCount (attemptAll T c meth body paths n)) paths))"
proof (induction paths arbitrary: lastErr n)
  case Nil
  then show ?case by (simp add: attemptCount_def)
next
  case (Cons path rest)
  obtain data err n' where d: "doJSON T c meth path body n = ((data, err), n')"
    by (metis surj_pair)
  have s: "sent n' = sent n @ requestsFor T c meth body path"
    using doJSON_sent [of T c meth path body n] by (simp add: d)
  show ?case
  proof (cases "retryableFailure err")
    case False
    then show ?thesis
      by (cases err) (simp_all add: d s attemptCount_def)
  next
    case True
    then obtain e where e: "err = Some e" "isRetryableImmichPath e"
      by (cases err) simp_all
    show ?thesis
      using Cons.IH [of "Some e" n']
      by (simp add: d e s attemptCount_def Let_def)
  qed
qed

lemma TrimSpace_Nil [simp]: "TrimSpace [] = []"
  by code_simp

lemma matchesAt_Cons:
  "matchesAt (cls # re) (ch # s) = (cls ch \<and> matchesAt re s)"
  by (auto simp: matchesAt_def)

lemma uuidPattern_head: "\<exists>re. uuidPattern = hexDigit # re"
  by (simp add: uuidPattern_def numeral_eq_Suc)

lemma not_matchesAt_slash: "\<not> matchesAt uuidPattern (CHR ''/'' # s)"
proof -
  obtain re where re: "uuidPattern = hexDigit # re"
    using uuidPattern_head by blast
  show ?thesis
    unfolding re by (simp add: matchesAt_Cons hexDigit_def)
qed

lemma MatchString_TrimLeft_slash:
  "MatchString uuidPattern (TrimLeft s ''/'') = MatchString uuidPattern s"
  by (induction s) (simp_all add: TrimLeft_def not_matchesAt_slash)

lemma AddAssetToAlbum_noop:
  "assetID = [] \<or> \<not> MatchString uuidPattern assetID \<or> \<not> Enabled cfg
     \<or> (AlbumID cfg = [] \<and> AlbumName cfg = []) \<Longrightarrow>
   AddAssetToAlbum L T cfg assetID n = (None, n)"
  using MatchString_TrimLeft_slash [of assetID]
  by (auto simp: AddAssetToAlbum_def Enabled_def Let_def)

lemma AddAssetsToAlbum_noop:
  "albumID = [] \<or> assetIDs = [] \<Longrightarrow> AddAssetsToAlbum T c albumID assetIDs n = (None, n)"
  by (auto simp: AddAssetsToAlbum_def)


lemma findInValues_firstUUID: "findInValues vs = firstUUID vs"
  by (induction vs) (simp_all add: firstUUID_def Let_def)

lemma firstUUID_append:
  "firstUUID (xs @ ys) = (case firstUUID xs of Some m \<Rightarrow> Some m | None \<Rightarrow> firstUUID ys)"
  by (induction xs) (simp_all add: firstUUID_def)

lemma firstUUID_Nil: "firstUUID [] = None"
  by (simp add: firstUUID_def)

lemma findInQuery_firstUUID: "findInQuery q = firstUUID (concat (map snd q))"
  by (induction q)
    (simp_all add: findInValues_firstUUID firstUUID_append firstUUID_Nil split: option.splits)

lemma firstUUID_Cons:
  "firstUUID (x # xs) =
     (if FindString uuidPattern x \<noteq> [] then Some (FindString uuidPattern x) else firstUUID xs)"
  by (simp add: firstUUID_def)


lemma HasPrefix_append: "HasPrefix (p @ r) p"
  by (simp add: HasPrefix_def)

lemma HasPrefix_iff: "HasPrefix s p \<longleftrightarrow> (\<exists>r. s = p @ r)"
  by (metis HasPrefix_def append_eq_conv_conj)



lemma HasPrefix_scheme: "HasPrefix s ''immich://'' \<Longrightarrow> HasPrefix s ''immich:''"
proof -
  assume "HasPrefix s ''immich://''"
  then obtain r where "s = ''immich://'' @ r"
    using HasPrefix_iff by blast
  then show ?thesis
    by (simp add: HasPrefix_def)
qed

lemma Extract_url:
  assumes "\<not> HasPrefix (TrimSpace link) ''immich:''"
  shows "ExtractAssetIDFromLink L link cfg =
     (case url_Parse L (TrimSpace link) of
        Inl err \<Rightarrow> ([], False)
      | Inr parsed \<Rightarrow>
          if TrimSpace link \<noteq> [] \<and> Host parsed \<noteq> [] \<and> hostAccepted L cfg parsed then
            (case firstUUID (Path parsed # concat (map snd (url_Query L (RawQuery parsed)))) of
               Some m \<Rightarrow> (m, True)
             | None \<Rightarrow> ([], False))
          else ([], False))"
proof -
  have "\<not> HasPrefix (TrimSpace link) ''immich://''"
    using assms HasPrefix_scheme by blast
  then show ?thesis
    using assms
    by (simp add: ExtractAssetIDFromLink_def Let_def ReferencePrefix_def
        hostAccepted_def findInQuery_firstUUID firstUUID_Cons split: sum.splits option.splits)
qed

lemmas http_defs =
  doJSON_def roundTrip_def scripted_def answer_def exampleClient_def getRequest_def
  proberContract_def isRetryableImmichPath_def nilBytes_def Let_def

lemma listAssetsLoop_fatal:
  "doJSONWithQuery T c ''GET'' path query n = ((d, Some err), n') \<Longrightarrow>
   \<not> isRetryableImmichPath err \<Longrightarrow>
   listAssetsLoop T c lastErr ((path, query) # rest) n = ((None, Some err), n')"
  by simp

lemma AddAssetsToAlbum_fatal:
  "albumID \<noteq> [] \<Longrightarrow> assetIDs \<noteq> [] \<Longrightarrow>
   doJSONWithFallback T c ''PUT'' [''/albums/'' @ albumID @ ''/assets'']
     (Some (MapValue [(''ids'', StringsValue assetIDs)])) n = ((d, Some err), n') \<Longrightarrow>
   \<not> isRetryableImmichPath err \<Longrightarrow>
   AddAssetsToAlbum T c albumID assetIDs n = (Some err, n')"
  by (simp add: AddAssetsToAlbum_def)

lemma AddAssetToAlbum_create_fails:
  "assetID \<noteq> [] \<Longrightarrow> MatchString uuidPattern assetID \<Longrightarrow> Enabled cfg \<Longrightarrow>
   AlbumID cfg = [] \<Longrightarrow> AlbumName cfg \<noteq> [] \<Longrightarrow> NewClient L cfg = Inr client \<Longrightarrow>
   ListAlbums T client n = ((albums, None), n1) \<Longrightarrow>
   findAlbumID L (AlbumName cfg) albums = [] \<Longrightarrow>
   CreateAlbum T client (AlbumName cfg) n1 = (Inl err, n2) \<Longrightarrow>
   AddAssetToAlbum L T cfg assetID n = (Some err, n2)"
  by (simp add: AddAssetToAlbum_def Enabled_def MatchString_TrimLeft_slash)

lemma listAssets_fallback:
  "LoadConfig L env = (cfg, None) \<Longrightarrow> Enabled cfg \<Longrightarrow> NewClient L cfg = Inr client \<Longrightarrow>
   ListAssets T client (positiveParam pageToken 1) (positiveParam pageSize 60) ''desc'' n =
     ((r, Some err), n1) \<Longrightarrow>
   listAssets L T True env pageSize pageToken n =
     (case SearchAssets T client
             \<lparr>Page = positiveParam pageToken 1, Size = positiveParam pageSize 60,
              Order = ''desc'', AlbumIDs = []\<rparr> n1 of
        ((_, Some err2), n2) \<Rightarrow> (HTTPError 502 ''failed to fetch immich assets'' (Some err2), n2)
      | ((r2, None), n2) \<Rightarrow> (respondAssets r2, n2))"
  by (simp add: listAssets_def Let_def)

lemma unmarshal_albumJSON:
  "unmarshalStruct setAlbumField z (albumJSON a) =
     (z\<lparr>Album_ID := sa_id a, Album_AlbumName := sa_name a\<rparr>, None)"
  by (simp add: albumJSON_def jsonText_def unmarshalStruct_def decodeMember_def setAlbumField_def
      keyIs_def stringField_def toUpper_def)

lemma unmarshalAlbumSlice_albumsJSON:
  "unmarshalAlbumSlice (albumsJSON w) = (map albumOf w, None)"
proof -
  have "map (unmarshalStruct setAlbumField zeroAlbum) (map albumJSON w) =
          map (\<lambda>a. (albumOf a, None)) w"
    by (simp add: unmarshal_albumJSON albumOf_def)
  then show ?thesis
    by (simp add: unmarshalAlbumSlice_def albumsJSON_def Let_def o_def)
qed

lemma decodeAlbums_albumsJSON: "decodeAlbums (albumsJSON w) = (map albumOf w, None)"
  by (simp add: decodeAlbums_def unmarshalAlbumSlice_albumsJSON)
    (simp add: unmarshalStruct_def albumsJSON_def unmarshalAlbumSlice_def)

lemma decodeAlbum_albumJSON: "sa_id a \<noteq> [] \<Longrightarrow> decodeAlbum (albumJSON a) = Inr (albumOf a)"
  by (simp add: decodeAlbum_def unmarshal_albumJSON albumOf_def)

lemma DisplayName_albumOf: "DisplayName (albumOf a) = sa_name a"
  by (simp add: DisplayName_def albumOf_def zeroAlbum_def)

lemma Album_ID_albumOf: "Album_ID (albumOf a) = sa_id a"
  by (simp add: albumOf_def)

lemma findAlbumID_service:
  "findAlbumID L (AlbumName cfg) (map albumOf w) =
     (case find (named L cfg) w of None \<Rightarrow> [] | Some a \<Rightarrow> sa_id a)"
  by (induction w) (simp_all add: DisplayName_albumOf Album_ID_albumOf named_def)

lemma roundTrip_service:
  "roundTrip (photoService api) req \<lparr>remote = w, sent = s\<rparr> =
     (case serve api w req of
        (Responded StatusCode respBody None, w') \<Rightarrow>
          ((if StatusCode < 200 \<or> StatusCode \<ge> 300
            then (nilBytes, Some (httpStatusError StatusCode (TrimSpace (take 1024 (content respBody)))))
            else (respBody, None)),
           \<lparr>remote = w', sent = s @ [req]\<rparr>)
      | (out, w') \<Rightarrow> fst (roundTrip (photoService api) req \<lparr>remote = w, sent = s\<rparr>,
                      \<lparr>remote = w', sent = s @ [req]\<rparr>))"
  by (simp add: roundTrip_def photoService_def Let_def split: prod.splits outcome.splits option.splits)

lemma ListAlbums_service:
  "ListAlbums (photoService (apiBaseURL c)) c \<lparr>remote = w, sent = s\<rparr> =
     ((map albumOf w, None),
      \<lparr>remote = w,
       sent = s @ requestsFor (photoService (apiBaseURL c)) c ''GET'' None ''/albums''\<rparr>)"
  by (simp add: ListAlbums_def doJSONWithFallback_def doJSON_def roundTrip_def serve_def
      answerWith_def requestsFor_def photoService_def decodeAlbums_albumsJSON Let_def)

lemma CreateAlbum_service:
  "CreateAlbum (photoService (apiBaseURL c)) c name \<lparr>remote = w, sent = s\<rparr> =
     (Inr (albumOf (newAlbum w name)),
      \<lparr>remote = w @ [newAlbum w name],
       sent = s @ requestsFor (photoService (apiBaseURL c)) c ''POST''
                (Some (MapValue [(''albumName'', StringValue name)])) ''/albums''\<rparr>)"
proof -
  have "sa_id (newAlbum w name) \<noteq> []"
    by (simp add: newAlbum_def)
  then show ?thesis
    by (simp add: CreateAlbum_def doJSONWithFallback_def doJSON_def roundTrip_def serve_def
        answerWith_def requestsFor_def photoService_def decodeAlbum_albumJSON Let_def)
qed

lemma AddAssetsToAlbum_service:
  assumes "albumID \<noteq> []" and "assetIDs \<noteq> []" and "\<exists>a\<in>set w. sa_id a = albumID"
  shows "AddAssetsToAlbum (photoService (apiBaseURL c)) c albumID assetIDs \<lparr>remote = w, sent = s\<rparr> =
     (None,
      \<lparr>remote = addAssetsTo albumID assetIDs w,
       sent = s @ requestsFor (photoService (apiBaseURL c)) c ''PUT''
                (Some (MapValue [(''ids'', StringsValue assetIDs)]))
                (''/albums/'' @ albumID @ ''/assets'')\<rparr>)"
proof -
  obtain a where a: "find (\<lambda>a. albumID = sa_id a) w = Some a" "sa_id a = albumID"
    using assms(3) by (cases "find (\<lambda>a. albumID = sa_id a) w") (auto simp: find_None_iff find_Some_iff)
  show ?thesis
    using assms(1,2)
    by (simp add: AddAssetsToAlbum_def doJSONWithFallback_def doJSON_def roundTrip_def serve_def
        answerWith_def requestsFor_def photoService_def a Let_def)
qed

lemma map_sa_id_addAssetsTo [simp]: "map sa_id (addAssetsTo i ids w) = map sa_id w"
  by (induction w) simp_all

lemma map_sa_name_addAssetsTo [simp]: "map sa_name (addAssetsTo i ids w) = map sa_name w"
  by (induction w) simp_all

lemma set_sa_id_addAssetsTo: "sa_id ` set (addAssetsTo i ids w) = sa_id ` set w"
  using map_sa_id_addAssetsTo [of i ids w] by (metis set_map)

lemma addAssetsTo_idem: "addAssetsTo i [x] (addAssetsTo i [x] w) = addAssetsTo i [x] w"
  by (induction w) simp_all

lemma addAssetsTo_member:
  "\<exists>a\<in>set w. sa_id a = i \<Longrightarrow> \<exists>a\<in>set (addAssetsTo i [x] w). sa_id a = i \<and> x \<in> set (sa_assets a)"
  by (induction w) auto

lemma find_named_addAssetsTo:
  "map_option sa_id (find (named L cfg) (addAssetsTo i ids w)) =
     map_option sa_id (find (named L cfg) w)"
  by (induction w) (simp_all add: named_def)

lemma find_append:
  "find P (xs @ ys) = (case find P xs of None \<Rightarrow> find P ys | Some x \<Rightarrow> Some x)"
  by (induction xs) simp_all

lemma resolveAlbum_exists:
  assumes "serviceReady L cfg w"
  shows "fst (resolveAlbum L cfg w) \<noteq> []
       \<and> (\<exists>a\<in>set (snd (resolveAlbum L cfg w)). sa_id a = fst (resolveAlbum L cfg w))"
proof (cases "AlbumID cfg \<noteq> []")
  case True
  then show ?thesis
    using assms by (simp add: resolveAlbum_def serviceReady_def)
next
  case False
  show ?thesis
  proof (cases "find (named L cfg) w")
    case None
    then show ?thesis
      using False by (simp add: resolveAlbum_def newAlbum_def)
  next
    case (Some a)
    then have "a \<in> set w"
      by (auto simp: find_Some_iff)
    then show ?thesis
      using False Some assms by (auto simp: resolveAlbum_def serviceReady_def)
  qed
qed

lemma resolveAlbum_ensured:
  assumes "serviceReady L cfg w"
  shows "resolveAlbum L cfg (ensured L cfg x w) = (fst (resolveAlbum L cfg w), ensured L cfg x w)"
proof (cases "AlbumID cfg \<noteq> []")
  case True
  then show ?thesis
    by (simp add: resolveAlbum_def ensured_def)
next
  case False
  then have refl: "strings_EqualFold L (AlbumName cfg) (AlbumName cfg)"
    using assms by (simp add: serviceReady_def)
  show ?thesis
  proof (cases "find (named L cfg) w")
    case None
    let ?new = "newAlbum w (AlbumName cfg)"
    have "find (named L cfg) (w @ [?new]) = Some ?new"
      using None refl by (simp add: find_append named_def newAlbum_def)
    then have "map_option sa_id (find (named L cfg) (addAssetsTo (sa_id ?new) [x] (w @ [?new]))) =
        Some (sa_id ?new)"
      by (simp add: find_named_addAssetsTo)
    then obtain a where "find (named L cfg) (addAssetsTo (sa_id ?new) [x] (w @ [?new])) = Some a"
      "sa_id a = sa_id ?new"
      by auto
    then show ?thesis
      using False None by (simp add: resolveAlbum_def ensured_def)
  next
    case (Some a)
    have "map_option sa_id (find (named L cfg) (addAssetsTo (sa_id a) [x] w)) = Some (sa_id a)"
      by (simp add: find_named_addAssetsTo Some)
    then obtain a' where "find (named L cfg) (addAssetsTo (sa_id a) [x] w) = Some a'"
      "sa_id a' = sa_id a"
      by auto
    then show ?thesis
      using False Some by (simp add: resolveAlbum_def ensured_def)
  qed
qed

lemma ensured_idem:
  "serviceReady L cfg w \<Longrightarrow> ensured L cfg x (ensured L cfg x w) = ensured L cfg x w"
  using resolveAlbum_ensured [of L cfg w x]
  by (simp add: ensured_def addAssetsTo_idem split: prod.splits)

lemma serviceReady_ensured:
  assumes "serviceReady L cfg w"
  shows "serviceReady L cfg (ensured L cfg x w)"
proof -
  obtain i w' where r: "resolveAlbum L cfg w = (i, w')"
    by (metis surj_pair)
  have ids: "\<forall>a\<in>set w'. sa_id a \<noteq> []"
    using assms r
    by (auto simp: resolveAlbum_def serviceReady_def newAlbum_def split: if_splits option.splits)
  have ex: "AlbumID cfg \<noteq> [] \<Longrightarrow> \<exists>a\<in>set w'. sa_id a = AlbumID cfg"
    using assms r by (auto simp: resolveAlbum_def serviceReady_def split: if_splits)
  have "sa_id ` set (addAssetsTo i [x] w') = sa_id ` set w'"
    by (rule set_sa_id_addAssetsTo)
  then have "(\<forall>a\<in>set (addAssetsTo i [x] w'). sa_id a \<noteq> [])
      \<and> (AlbumID cfg \<noteq> [] \<longrightarrow> (\<exists>a\<in>set (addAssetsTo i [x] w'). sa_id a = AlbumID cfg))"
    using ids ex by (metis (no_types, lifting) image_iff)
  then show ?thesis
    using assms by (simp add: serviceReady_def ensured_def r)
qed

lemma AddAssetToAlbum_service:
  assumes "assetID \<noteq> []" and "MatchString uuidPattern assetID" and "Enabled cfg"
    and "NewClient L cfg = Inr c" and "serviceReady L cfg w"
  shows "AddAssetToAlbum L (photoService (apiBaseURL c)) cfg assetID \<lparr>remote = w, sent = s\<rparr> =
     (None,
      \<lparr>remote = ensured L cfg (TrimLeft assetID ''/'') w,
       sent = s @ binderRequests L cfg c (TrimLeft assetID ''/'') w\<rparr>)"
proof -
  let ?x = "TrimLeft assetID ''/''"
  have gate: "MatchString uuidPattern ?x"
    using assms(2) by (simp add: MatchString_TrimLeft_slash)
  have some: "AlbumID cfg \<noteq> [] \<or> AlbumName cfg \<noteq> []"
    using assms(5) by (auto simp: serviceReady_def split: if_splits)
  note ex = resolveAlbum_exists [OF assms(5)]
  show ?thesis
  proof (cases "AlbumID cfg \<noteq> []")
    case True
    then show ?thesis
      using assms(1,3,4) gate ex
      by (simp add: AddAssetToAlbum_def Enabled_def Let_def AddAssetsToAlbum_service
          ensured_def resolveAlbum_def binderRequests_def)
  next
    case False
    show ?thesis
    proof (cases "find (named L cfg) w")
      case None
      then show ?thesis
        using assms(1,3,4) gate ex False some
        by (simp add: AddAssetToAlbum_def Enabled_def Let_def ListAlbums_service
            findAlbumID_service CreateAlbum_service Album_ID_albumOf AddAssetsToAlbum_service
            ensured_def resolveAlbum_def binderRequests_def)
    next
      case (Some a)
      then show ?thesis
        using assms(1,3,4) gate ex False some
        by (simp add: AddAssetToAlbum_def Enabled_def Let_def ListAlbums_service
            findAlbumID_service AddAssetsToAlbum_service
            ensured_def resolveAlbum_def binderRequests_def)
    qed
  qed
qed

lemma find_named_ensured:
  assumes "serviceReady L cfg w" and "AlbumID cfg = []"
  shows "find (named L cfg) (ensured L cfg x w) \<noteq> None"
proof
  assume "find (named L cfg) (ensured L cfg x w) = None"
  then have "snd (resolveAlbum L cfg (ensured L cfg x w)) \<noteq> ensured L cfg x w"
    using assms(2) by (simp add: resolveAlbum_def)
  then show False
    using resolveAlbum_ensured [OF assms(1), of x] by simp
qed

lemma requestsFor_service:
  "requestsFor (photoService api) c meth body path =
     [\<lparr>reqMethod = meth, reqURL = apiBaseURL c @ path,
       reqHeaders =
         (''x-api-key'', apiKey c) #
         (if body \<noteq> None then [(''Content-Type'', ''application/json'')] else []),
       reqBody = body\<rparr>]"
  by (simp add: requestsFor_def photoService_def split: option.splits)

lemma binderRequests_no_POST:
  assumes "serviceReady L cfg w"
  shows "list_all (\<lambda>r. reqMethod r \<noteq> ''POST'') (binderRequests L cfg c x (ensured L cfg x w))"
proof (cases "AlbumID cfg = []")
  case True
  then obtain a where "find (named L cfg) (ensured L cfg x w) = Some a"
    using find_named_ensured [OF assms True, of x] by auto
  then show ?thesis
    using True by (simp add: binderRequests_def requestsFor_service Let_def)
next
  case False
  then show ?thesis
    by (simp add: binderRequests_def requestsFor_service Let_def)
qed

lemma names_ensured:
  "map sa_name (ensured L cfg x w) =
     map sa_name w @
     (if AlbumID cfg = [] \<and> find (named L cfg) w = None then [AlbumName cfg] else [])"
  by (simp add: ensured_def resolveAlbum_def newAlbum_def split: option.splits)

lemma member_ensured:
  assumes "serviceReady L cfg w"
  shows "\<exists>a\<in>set (ensured L cfg x w). x \<in> set (sa_assets a)"
proof -
  obtain i w' where r: "resolveAlbum L cfg w = (i, w')"
    by (metis surj_pair)
  then have "\<exists>a\<in>set w'. sa_id a = i"
    using resolveAlbum_exists [OF assms] by simp
  then show ?thesis
    using addAssetsTo_member [of w' i x] by (auto simp: ensured_def r)
qed

section \<open>The reference codec\<close>

text \<open>
  Claim C7, as the code has it.  For a string that begins with \<open>"immich:"\<close>,
  \<open>ParseReference\<close> returns the remainder after the prefix exactly as it stands (a
  leading slash is kept) and reports it valid exactly when the remainder is not empty;
  for any other string it returns the empty string and \<open>false\<close>.  So decoding an
  encoded identifier gives the identifier back, \<open>"immich:1234"\<close> decodes to
  \<open>("1234", true)\<close> and \<open>"not-a-ref"\<close> is not a reference.
\<close>

theorem ParseReference_keeps_remainder:
  "ParseReference (''immich:'' @ r) = (r, r \<noteq> [])
   \<and> ParseReference s =
       (if HasPrefix s ''immich:''
        then (drop (length ''immich:'') s, drop (length ''immich:'') s \<noteq> [])
        else ([], False))
   \<and> ParseReference (NormalizeReference assetID) = (assetID, assetID \<noteq> [])
   \<and> ParseReference ''immich:1234'' = (''1234'', True)
   \<and> ParseReference ''not-a-ref'' = ([], False)"
  by (simp add: ParseReference_def NormalizeReference_def HasPrefix_def TrimPrefix_def
      ReferencePrefix_def)

text \<open>
  The claim as the specification states it has the leading slash trimmed from the
  remainder.  At \<open>"immich:/abc"\<close> the code returns \<open>"/abc"\<close>, not \<open>"abc"\<close>; at
  \<open>"immich:/"\<close> the trimmed remainder is empty, and the code still reports a valid
  reference.
\<close>

theorem ParseReference_leading_slash_kept:
  "ParseReference ''immich:/abc'' = (''/abc'', True)
   \<and> TrimLeft (TrimPrefix ''immich:/abc'' ''immich:'') ''/'' = ''abc''
   \<and> ParseReference ''immich:/'' = (''/'', True)
   \<and> TrimLeft (TrimPrefix ''immich:/'' ''immich:'') ''/'' = []"
  by (simp add: ParseReference_def HasPrefix_def TrimPrefix_def TrimLeft_def
      ReferencePrefix_def)

section \<open>The response normalizer\<close>



text \<open>
  Claim C2.  Let \<open>rs\<close> be \<open>N\<close> well-formed records, that is, records that
  \<open>decodeAssetRaw\<close> decodes without error.  Then each of the four envelopes around
  \<open>rs\<close> decodes to the \<open>N\<close> decoded records in the order of \<open>rs\<close>: the bare array; an
  object whose member \<open>assets\<close> is the array, whatever its member \<open>items\<close> is; an object
  whose member \<open>assets\<close> is an object whose member \<open>items\<close> is the array, whatever its
  own member \<open>items\<close> is; and an object without a member \<open>assets\<close> whose member \<open>items\<close>
  is the array.
\<close>

theorem decodeAssetsFromUnknown_envelopes:
  assumes "\<forall>r\<in>set rs. snd (decodeAssetRaw r) = None"
  shows "(isArrayOf data rs \<longrightarrow>
            decodeAssetsFromUnknown data = (map (\<lambda>r. fst (decodeAssetRaw r)) rs, None))
       \<and> (hasMember data ''assets'' a \<and> isArrayOf a rs \<longrightarrow>
            decodeAssetsFromUnknown data = (map (\<lambda>r. fst (decodeAssetRaw r)) rs, None))
       \<and> (hasMember data ''assets'' a \<and> hasMember a ''items'' i \<and> isArrayOf i rs \<longrightarrow>
            decodeAssetsFromUnknown data = (map (\<lambda>r. fst (decodeAssetRaw r)) rs, None))
       \<and> (lacksMember data ''assets'' \<and> hasMember data ''items'' i \<and> isArrayOf i rs \<longrightarrow>
            decodeAssetsFromUnknown data = (map (\<lambda>r. fst (decodeAssetRaw r)) rs, None))
       \<and> length (map (\<lambda>r. fst (decodeAssetRaw r)) rs) = length rs"
proof -
  have "decodeAssetSlice rs = (map (\<lambda>r. fst (decodeAssetRaw r)) rs, None)"
    by (rule decodeAssetSlice_wellformed [OF assms])
  then show ?thesis
    using envelope_bare_array [of data rs] envelope_assets_array [of data a rs]
      envelope_assets_items [of data a i rs] envelope_items [of data i rs]
    by auto
qed

theorem decodeAssetsFromUnknown_envelopes_witness:
  "decodeAssetsFromUnknown envelopeArray =
     ([zeroAsset\<lparr>ID := ''X'', AssetID := ''X''\<rparr>, zeroAsset\<lparr>ID := ''abc-123''\<rparr>], None)
   \<and> decodeAssetsFromUnknown envelopeAssets =
     ([zeroAsset\<lparr>ID := ''X'', AssetID := ''X''\<rparr>, zeroAsset\<lparr>ID := ''abc-123''\<rparr>], None)
   \<and> decodeAssetsFromUnknown envelopeAssetsItems =
     ([zeroAsset\<lparr>ID := ''X'', AssetID := ''X''\<rparr>, zeroAsset\<lparr>ID := ''abc-123''\<rparr>], None)
   \<and> decodeAssetsFromUnknown envelopeItems =
     ([zeroAsset\<lparr>ID := ''X'', AssetID := ''X''\<rparr>, zeroAsset\<lparr>ID := ''abc-123''\<rparr>], None)"
proof -
  have wf: "\<forall>r\<in>set twoRecords. snd (decodeAssetRaw r) = None"
    by (simp add: twoRecords_def decodeAssetRaw_recordAssetId decodeAssetRaw_recordSlashId)
  have m: "map (\<lambda>r. fst (decodeAssetRaw r)) twoRecords =
             [zeroAsset\<lparr>ID := ''X'', AssetID := ''X''\<rparr>, zeroAsset\<lparr>ID := ''abc-123''\<rparr>]"
    by (simp add: twoRecords_def decodeAssetRaw_recordAssetId decodeAssetRaw_recordSlashId)
  have s1: "isArrayOf envelopeArray twoRecords"
    by (simp add: isArrayOf_def envelopeArray_def)
  have s2: "hasMember envelopeAssets ''assets'' envelopeArray"
    by (simp add: hasMember_def envelopeAssets_def)
  have s3: "hasMember envelopeAssetsItems ''assets'' envelopeItems"
    by (simp add: hasMember_def envelopeAssetsItems_def)
  have s4: "hasMember envelopeItems ''items'' envelopeArray"
    by (simp add: hasMember_def envelopeItems_def)
  have s5: "lacksMember envelopeItems ''assets''"
    by (simp add: lacksMember_def envelopeItems_def)
  show ?thesis
    using decodeAssetsFromUnknown_envelopes [OF wf, of envelopeArray envelopeArray envelopeArray]
      decodeAssetsFromUnknown_envelopes [OF wf, of envelopeAssets envelopeArray envelopeArray]
      decodeAssetsFromUnknown_envelopes [OF wf, of envelopeAssetsItems envelopeItems envelopeArray]
      decodeAssetsFromUnknown_envelopes [OF wf, of envelopeItems envelopeArray envelopeArray]
      s1 s2 s3 s4 s5
    by (simp only: m simp_thms)
qed

section \<open>The endpoint prober\<close>

text \<open>
  Claim C1.  For every transport, every state of the world and every list of
  candidates, \<open>doJSONWithFallback\<close> returns what the decisive attempt returned, where
  the candidates are attempted in list order: the body of the first attempt that
  succeeds, when no earlier attempt failed otherwise than with status 404 or 405; the
  error of the first attempt that fails in any other way (another status, a transport
  error, an error building the request); and the error of the last attempt when every
  attempt fails with 404 or 405.  The requests it has handed to the HTTP client are
  those of the candidates up to the decisive one, in list order, and no others.
\<close>

theorem doJSONWithFallback_contract:
  "doJSONWithFallback T c meth paths body n =
     proberContract (attemptAll T c meth body paths n) n
   \<and> sent (snd (doJSONWithFallback T c meth paths body n)) =
       sent n @ concat (map (requestsFor T c meth body)
         (take (attemptCount (attemptAll T c meth body paths n)) paths))"
  by (simp add: prober_contract [symmetric] doJSONWithFallback_def fallbackLoop_sent)

text \<open>The candidates \<open>[A\<rightarrow>404, B\<rightarrow>500, C\<rightarrow>200]\<close>: the prober stops at \<open>B\<close> with
  \<open>B\<close>'s error and never attempts \<open>C\<close>.  The candidates \<open>[A\<rightarrow>404, B\<rightarrow>405]\<close>: it returns
  the error of \<open>B\<close>, the last one.\<close>

theorem doJSONWithFallback_contract_witness:
  "doJSONWithFallback scripted exampleClient ''GET'' [''/a'', ''/b'', ''/c''] None
     \<lparr>remote = [answer 404, answer 500, answer 200], sent = []\<rparr> =
   ((nilBytes, Some (httpStatusError 500 [])),
    \<lparr>remote = [answer 200], sent = [getRequest ''/a'', getRequest ''/b'']\<rparr>)
   \<and> doJSONWithFallback scripted exampleClient ''GET'' [''/a'', ''/b''] None
     \<lparr>remote = [answer 404, answer 405], sent = []\<rparr> =
   ((nilBytes, Some (httpStatusError 405 [])),
    \<lparr>remote = [], sent = [getRequest ''/a'', getRequest ''/b'']\<rparr>)"
proof -
  have a: "proberContract
      (attemptAll scripted exampleClient ''GET'' None [''/a'', ''/b'', ''/c'']
         \<lparr>remote = [answer 404, answer 500, answer 200], sent = []\<rparr>)
      \<lparr>remote = [answer 404, answer 500, answer 200], sent = []\<rparr> =
    ((nilBytes, Some (httpStatusError 500 [])),
     \<lparr>remote = [answer 200], sent = [getRequest ''/a'', getRequest ''/b'']\<rparr>)"
    by (simp add: http_defs)
  have b: "proberContract
      (attemptAll scripted exampleClient ''GET'' None [''/a'', ''/b'']
         \<lparr>remote = [answer 404, answer 405], sent = []\<rparr>)
      \<lparr>remote = [answer 404, answer 405], sent = []\<rparr> =
    ((nilBytes, Some (httpStatusError 405 [])),
     \<lparr>remote = [], sent = [getRequest ''/a'', getRequest ''/b'']\<rparr>)"
    by (simp add: http_defs)
  show ?thesis
    using doJSONWithFallback_contract [of scripted exampleClient "''GET''" "[''/a'', ''/b'', ''/c'']"
        None "\<lparr>remote = [answer 404, answer 500, answer 200], sent = []\<rparr>"]
      doJSONWithFallback_contract [of scripted exampleClient "''GET''" "[''/a'', ''/b'']"
        None "\<lparr>remote = [answer 404, answer 405], sent = []\<rparr>"]
    by (simp only: a b simp_thms)
qed

text \<open>
  Claim C6, as the code has it.  With an empty list of candidates the prober attempts
  nothing, leaves the state as it is and returns neither data nor an error.
\<close>

theorem doJSONWithFallback_no_candidates:
  "doJSONWithFallback T c meth [] body n = ((nilBytes, None), n)"
  by (simp add: doJSONWithFallback_def)

text \<open>The claim as the specification states it has the prober return an error for an
  empty list.  The error it returns is \<open>nil\<close>.\<close>

theorem doJSONWithFallback_no_candidates_no_error:
  "snd (fst (doJSONWithFallback scripted exampleClient ''GET'' [] None
     \<lparr>remote = [], sent = []\<rparr>)) = None"
  by (simp add: doJSONWithFallback_def)

section \<open>The album binder\<close>

text \<open>
  The gates of the binder, as the code has them.  \<open>AddAssetToAlbum\<close> returns \<open>nil\<close> and
  hands no request to the HTTP client (the state, with its list of requests sent, is
  unchanged) whenever the asset identifier is empty, holds no UUID-shaped text
  anywhere, the configuration lacks the base URL or the API key, or neither an album
  identifier nor an album name is configured.  \<open>AddAssetsToAlbum\<close> with an empty list
  of identifiers does the same.
\<close>

lemma AddAssetToAlbum_noop_preconditions:
  "(assetID = [] \<or> \<not> MatchString uuidPattern assetID \<or> \<not> Enabled cfg
      \<or> (AlbumID cfg = [] \<and> AlbumName cfg = []) \<longrightarrow>
    AddAssetToAlbum L T cfg assetID n = (None, n))
   \<and> AddAssetsToAlbum T c albumID [] n = (None, n)"
  using AddAssetToAlbum_noop [of assetID cfg L T n] AddAssetsToAlbum_noop [of albumID "[]" T c n]
  by blast

lemma AddAssetToAlbum_noop_preconditions_witness:
  "\<not> MatchString uuidPattern ''not-a-uuid''
   \<and> AddAssetToAlbum exampleLib scripted exampleConfig ''not-a-uuid''
       \<lparr>remote = [answer 200], sent = []\<rparr> = (None, \<lparr>remote = [answer 200], sent = []\<rparr>)"
proof -
  have h: "\<not> MatchString uuidPattern ''not-a-uuid''"
    by code_simp
  then show ?thesis
    using AddAssetToAlbum_noop_preconditions [of "''not-a-uuid''" exampleConfig exampleLib
        scripted "\<lparr>remote = [answer 200], sent = []\<rparr>"]
    by blast
qed

text \<open>
  Claim C5.  The claim has the binder do nothing for an asset identifier that is not
  UUID-shaped, and the hand-off note says the same (\<open>Skips add if asset ID is not a
  valid UUID\<close>).  The gate of the code is \<open>uuidPattern.MatchString\<close>, and the pattern
  has no anchors: it lets every identifier pass that holds a UUID somewhere.  The
  identifier \<open>zz550e8400-e29b-41d4-a716-446655440000zz\<close> is not a UUID, yet the binder
  does not skip it.  When the service answers the album list with status 500, the
  binder has sent that request and returns the error; against a service without
  albums it lists, creates the album \<open>Memos\<close> and adds the identifier as it stands.
\<close>

theorem AddAssetToAlbum_padded_UUID_not_skipped:
  "\<not> isUUID paddedUUID
   \<and> MatchString uuidPattern paddedUUID
   \<and> AddAssetToAlbum exampleLib scripted exampleConfig paddedUUID
       \<lparr>remote = [answer 500], sent = []\<rparr> =
     (Some (httpStatusError 500 []), \<lparr>remote = [], sent = [listAlbumsRequest]\<rparr>)
   \<and> AddAssetToAlbum exampleLib (photoService ''https://photos.example/api'') exampleConfig
       paddedUUID \<lparr>remote = [], sent = []\<rparr> =
     (None,
      \<lparr>remote = [paddedAlbum],
       sent = [listAlbumsRequest, createAlbumRequest, putPaddedRequest]\<rparr>)"
  by code_simp

section \<open>Link extraction\<close>




text \<open>
  Claim C8, as the code has it.  Let the link, trimmed of surrounding white space,
  not begin with \<open>"immich:"\<close>.  Then the trimmed link is parsed as a URL, and an
  identifier is found only if it is not empty, parses, has a host, and the host is
  accepted: no base URL is configured, or the base URL parses, has a host, and the two
  hosts are equal under \<open>EqualFold\<close>.  The identifier is then the first UUID-shaped
  substring of the path or, when the path has none, that of the first query value that
  has one, in the order in which the query's map is visited.  In every other case the
  result is the empty string and \<open>false\<close>.
\<close>

theorem ExtractAssetIDFromLink_url:
  assumes "\<not> HasPrefix (TrimSpace link) ''immich:''"
  shows "ExtractAssetIDFromLink L link cfg =
     (case url_Parse L (TrimSpace link) of
        Inl err \<Rightarrow> ([], False)
      | Inr parsed \<Rightarrow>
          if TrimSpace link \<noteq> [] \<and> Host parsed \<noteq> [] \<and> hostAccepted L cfg parsed then
            (case firstUUID (Path parsed # concat (map snd (url_Query L (RawQuery parsed)))) of
               Some m \<Rightarrow> (m, True)
             | None \<Rightarrow> ([], False))
          else ([], False))"
  by (rule Extract_url [OF assms])

text \<open>The link \<^verbatim>\<open>https://photos.example/share/550e8400-e29b-41d4-a716-446655440000\<close>
  gives the UUID when the base URL is \<^verbatim>\<open>https://photos.example\<close>, and nothing when it
  is \<^verbatim>\<open>https://other.example\<close>.\<close>

theorem ExtractAssetIDFromLink_url_witness:
  "\<not> HasPrefix (TrimSpace shareLink) ''immich:''
   \<and> ExtractAssetIDFromLink exampleLib shareLink exampleConfig = (exampleUUID, True)
   \<and> ExtractAssetIDFromLink exampleLib shareLink otherHostConfig = ([], False)"
proof -
  have h: "\<not> HasPrefix (TrimSpace shareLink) ''immich:''"
    by code_simp
  have a: "(case url_Parse exampleLib (TrimSpace shareLink) of
        Inl err \<Rightarrow> ([], False)
      | Inr parsed \<Rightarrow>
          if TrimSpace shareLink \<noteq> [] \<and> Host parsed \<noteq> [] \<and> hostAccepted exampleLib exampleConfig parsed then
            (case firstUUID (Path parsed # concat (map snd (url_Query exampleLib (RawQuery parsed)))) of
               Some m \<Rightarrow> (m, True)
             | None \<Rightarrow> ([], False))
          else ([], False)) = (exampleUUID, True)"
    by code_simp
  have b: "(case url_Parse exampleLib (TrimSpace shareLink) of
        Inl err \<Rightarrow> ([], False)
      | Inr parsed \<Rightarrow>
          if TrimSpace shareLink \<noteq> [] \<and> Host parsed \<noteq> [] \<and> hostAccepted exampleLib otherHostConfig parsed then
            (case firstUUID (Path parsed # concat (map snd (url_Query exampleLib (RawQuery parsed)))) of
               Some m \<Rightarrow> (m, True)
             | None \<Rightarrow> ([], False))
          else ([], False)) = ([], False)"
    by code_simp
  show ?thesis
    using ExtractAssetIDFromLink_url [OF h, of exampleLib exampleConfig]
      ExtractAssetIDFromLink_url [OF h, of exampleLib otherHostConfig] h
    by (simp only: a b simp_thms)
qed

text \<open>The claim as the specification states it finds the UUID of the path whenever no
  base URL is configured.  The link \<^verbatim>\<open>/share/550e8400-e29b-41d4-a716-446655440000\<close>
  parses (to a URL without host) and its path holds a UUID, yet nothing is extracted.
  And a link that begins with a space and then \<open>"immich:hello"\<close> does not begin with
  the prefix, yet it is not parsed as a URL: the identifier \<open>hello\<close> is returned.\<close>

theorem ExtractAssetIDFromLink_host_required:
  "BaseURL noBaseConfig = []
   \<and> \<not> HasPrefix sharePath ''immich:''
   \<and> url_Parse exampleLib sharePath = Inr \<lparr>Host = [], Path = sharePath, RawQuery = []\<rparr>
   \<and> FindString uuidPattern sharePath = exampleUUID
   \<and> ExtractAssetIDFromLink exampleLib sharePath noBaseConfig = ([], False)
   \<and> \<not> HasPrefix '' immich:hello'' ''immich:''
   \<and> ExtractAssetIDFromLink exampleLib '' immich:hello'' noBaseConfig = (''hello'', True)"
  by code_simp

section \<open>Errors across logical operations\<close>

text \<open>
  Claim C9, as the code has it.  Inside the adapter a fatal error ends the logical
  operation and is returned as it is, with no further request: \<open>ListAssets\<close> stops at
  the first attempt that fails fatally; \<open>AddAssetsToAlbum\<close> does not try \<open>POST\<close> after a
  fatal \<open>PUT\<close>; \<open>AddAssetToAlbum\<close> returns the error of a failed album creation and
  does not go on to add the asset.  Above the adapter, the handler \<open>listAssets\<close> does
  put another logical call in the place of a failed one: whenever \<open>ListAssets\<close> returns
  an error, fatal or not, it calls \<open>SearchAssets\<close>, answers with that call's result if
  it succeeds, and answers 502 with that call's error only if it fails too.
\<close>

theorem fatal_errors_and_handler_fallback:
  "(doJSONWithQuery T c ''GET'' path query n = ((d, Some err), n')
      \<and> \<not> isRetryableImmichPath err \<longrightarrow>
    listAssetsLoop T c lastErr ((path, query) # rest) n = ((None, Some err), n'))
   \<and> (albumID \<noteq> [] \<and> assetIDs \<noteq> []
      \<and> doJSONWithFallback T c ''PUT'' [''/albums/'' @ albumID @ ''/assets'']
           (Some (MapValue [(''ids'', StringsValue assetIDs)])) n = ((d, Some err), n')
      \<and> \<not> isRetryableImmichPath err \<longrightarrow>
    AddAssetsToAlbum T c albumID assetIDs n = (Some err, n'))
   \<and> (assetID \<noteq> [] \<and> MatchString uuidPattern assetID \<and> Enabled cfg
      \<and> AlbumID cfg = [] \<and> AlbumName cfg \<noteq> [] \<and> NewClient L cfg = Inr client
      \<and> ListAlbums T client n = ((albums, None), n1)
      \<and> findAlbumID L (AlbumName cfg) albums = []
      \<and> CreateAlbum T client (AlbumName cfg) n1 = (Inl err, n2) \<longrightarrow>
    AddAssetToAlbum L T cfg assetID n = (Some err, n2))
   \<and> (LoadConfig L env = (cfg, None) \<and> Enabled cfg \<and> NewClient L cfg = Inr client
      \<and> ListAssets T client (positiveParam pageToken 1) (positiveParam pageSize 60) ''desc'' n =
           ((r, Some err), n1) \<longrightarrow>
    listAssets L T True env pageSize pageToken n =
      (case SearchAssets T client
              \<lparr>Page = positiveParam pageToken 1, Size = positiveParam pageSize 60,
               Order = ''desc'', AlbumIDs = []\<rparr> n1 of
         ((_, Some err2), n2) \<Rightarrow>
           (HTTPError 502 ''failed to fetch immich assets'' (Some err2), n2)
       | ((r2, None), n2) \<Rightarrow> (respondAssets r2, n2)))"
  using listAssetsLoop_fatal [of T c path query n d err n' lastErr rest]
    AddAssetsToAlbum_fatal [of albumID assetIDs T c n d err n']
    AddAssetToAlbum_create_fails [of assetID cfg L client T n albums n1 err n2]
    listAssets_fallback [of L env cfg client T pageToken pageSize n r err n1]
  by blast

text \<open>Album creation answered with status 500: \<open>AddAssetToAlbum\<close> returns that error
  after the two requests for the album list and the creation.  \<open>ListAssets\<close> answered
  with 500 and \<open>SearchAssets\<close> with 503: the handler answers 502 with the second
  error.\<close>

theorem fatal_errors_and_handler_fallback_witness:
  "AddAssetToAlbum exampleLib scripted exampleConfig exampleUUID
     \<lparr>remote = [Responded 200 emptyList None, answer 500, answer 200], sent = []\<rparr> =
     (Some (httpStatusError 500 []),
      \<lparr>remote = [answer 200], sent = [listAlbumsRequest, createAlbumRequest]\<rparr>)
   \<and> listAssets exampleLib scripted True exampleEnv [] []
       \<lparr>remote = [answer 500, answer 503], sent = []\<rparr> =
     (HTTPError 502 ''failed to fetch immich assets'' (Some (httpStatusError 503 [])),
      \<lparr>remote = [], sent = [firstListRequest, firstSearchRequest]\<rparr>)"
proof -
  let ?n = "\<lparr>remote = [Responded 200 emptyList None, answer 500, answer 200], sent = []\<rparr>"
  let ?n1 = "\<lparr>remote = [answer 500, answer 200], sent = [listAlbumsRequest]\<rparr>"
  let ?n2 = "\<lparr>remote = [answer 200], sent = [listAlbumsRequest, createAlbumRequest]\<rparr>"
  let ?m = "\<lparr>remote = [answer 500, answer 503], sent = []\<rparr>"
  let ?m1 = "\<lparr>remote = [answer 503], sent = [firstListRequest]\<rparr>"
  have b1: "exampleUUID \<noteq> [] \<and> MatchString uuidPattern exampleUUID \<and> Enabled exampleConfig
      \<and> AlbumID exampleConfig = [] \<and> AlbumName exampleConfig \<noteq> []
      \<and> NewClient exampleLib exampleConfig = Inr exampleClient"
    by code_simp
  have b2: "ListAlbums scripted exampleClient ?n = (([], None), ?n1)"
    by code_simp
  have b3: "findAlbumID exampleLib (AlbumName exampleConfig) [] = []"
    by simp
  have b4: "CreateAlbum scripted exampleClient (AlbumName exampleConfig) ?n1 =
      (Inl (httpStatusError 500 []), ?n2)"
    by code_simp
  have h1: "LoadConfig exampleLib exampleEnv = (exampleConfig, None)"
    by code_simp
  have h2: "ListAssets scripted exampleClient (positiveParam [] 1) (positiveParam [] 60) ''desc'' ?m =
      ((None, Some (httpStatusError 500 [])), ?m1)"
    by code_simp
  have h3: "(case SearchAssets scripted exampleClient
              \<lparr>Page = positiveParam [] 1, Size = positiveParam [] 60,
               Order = ''desc'', AlbumIDs = []\<rparr> ?m1 of
         ((_, Some err2), n2) \<Rightarrow>
           (HTTPError 502 ''failed to fetch immich assets'' (Some err2), n2)
       | ((r2, None), n2) \<Rightarrow> (respondAssets r2, n2)) =
      (HTTPError 502 ''failed to fetch immich assets'' (Some (httpStatusError 503 [])),
       \<lparr>remote = [], sent = [firstListRequest, firstSearchRequest]\<rparr>)"
    by code_simp
  show ?thesis
    using fatal_errors_and_handler_fallback [where L = exampleLib and T = scripted
        and cfg = exampleConfig and client = exampleClient and assetID = exampleUUID
        and n = ?n and albums = "[]" and ?n1.0 = ?n1 and err = "httpStatusError 500 []"
        and ?n2.0 = ?n2, THEN conjunct2, THEN conjunct2, THEN conjunct1]
      fatal_errors_and_handler_fallback [where L = exampleLib and T = scripted
        and cfg = exampleConfig and client = exampleClient and env = exampleEnv
        and pageToken = "[]" and pageSize = "[]" and n = ?m and r = None
        and err = "httpStatusError 500 []" and ?n1.0 = ?m1,
        THEN conjunct2, THEN conjunct2, THEN conjunct2]
      b1 b2 b3 b4 h1 h2
    by (simp only: h3 simp_thms)
qed

text \<open>The claim as the specification states it has every fatal error surfaced and no
  layer put a different logical call in the place of a failed one.  When the first
  request of \<open>ListAssets\<close> is answered with status 500, \<open>ListAssets\<close> returns that
  fatal error; the handler then sends the first request of \<open>SearchAssets\<close> and
  answers with its (empty) result, not with an error.\<close>

theorem listAssets_replaces_failed_ListAssets:
  "ListAssets scripted exampleClient 1 60 ''desc''
     \<lparr>remote = [answer 500, Responded 200 emptyList None], sent = []\<rparr> =
     ((None, Some (httpStatusError 500 [])),
      \<lparr>remote = [Responded 200 emptyList None], sent = [firstListRequest]\<rparr>)
   \<and> \<not> isRetryableImmichPath (httpStatusError 500 [])
   \<and> listAssets exampleLib scripted True exampleEnv [] []
       \<lparr>remote = [answer 500, Responded 200 emptyList None], sent = []\<rparr> =
     (JSONAssets [] [], \<lparr>remote = [], sent = [firstListRequest, firstSearchRequest]\<rparr>)"
  by code_simp

section \<open>Idempotence of the album binder\<close>

text \<open>
  Claim C4.  Let the asset identifier pass the binder's gates, let the configuration be
  enabled and give a client, and let the photo service be ready for it.  Then two runs
  of \<open>AddAssetToAlbum\<close> in sequence with the same asset and configuration both return
  \<open>nil\<close>.  After the first run the service has the albums it had before and, only when
  no album identifier is configured and no album has the configured name up to case,
  one new album of that name: an album with that name is reused.  The second run
  leaves the service as the first run left it (it creates no album, and the asset, a
  member already, stays a member), and it sends no \<open>POST\<close>.
\<close>

theorem AddAssetToAlbum_twice:
  assumes "assetID \<noteq> []" and "MatchString uuidPattern assetID" and "Enabled cfg"
    and "NewClient L cfg = Inr c" and "serviceReady L cfg w"
    and "AddAssetToAlbum L (photoService (apiBaseURL c)) cfg assetID \<lparr>remote = w, sent = s\<rparr> =
           (err1, n1)"
    and "AddAssetToAlbum L (photoService (apiBaseURL c)) cfg assetID n1 = (err2, n2)"
  shows "err1 = None \<and> err2 = None
       \<and> remote n2 = remote n1
       \<and> map sa_name (remote n1) =
           map sa_name w @
           (if AlbumID cfg = [] \<and> find (named L cfg) w = None then [AlbumName cfg] else [])
       \<and> (\<exists>a\<in>set (remote n2). TrimLeft assetID ''/'' \<in> set (sa_assets a))
       \<and> list_all (\<lambda>r. reqMethod r \<noteq> ''POST'') (drop (length (sent n1)) (sent n2))"
proof -
  let ?x = "TrimLeft assetID ''/''"
  let ?w1 = "ensured L cfg ?x w"
  have 1: "err1 = None" "n1 = \<lparr>remote = ?w1, sent = s @ binderRequests L cfg c ?x w\<rparr>"
    using AddAssetToAlbum_service [OF assms(1-5), of s] assms(6) by simp_all
  have ready: "serviceReady L cfg ?w1"
    by (rule serviceReady_ensured [OF assms(5)])
  have 2: "err2 = None"
    "n2 = \<lparr>remote = ensured L cfg ?x ?w1,
           sent = (s @ binderRequests L cfg c ?x w) @ binderRequests L cfg c ?x ?w1\<rparr>"
    using AddAssetToAlbum_service [OF assms(1-4) ready, of "s @ binderRequests L cfg c ?x w"]
      assms(7) by (simp_all add: 1)
  have same: "ensured L cfg ?x ?w1 = ?w1"
    by (rule ensured_idem [OF assms(5)])
  show ?thesis
    using member_ensured [OF assms(5), of ?x] binderRequests_no_POST [OF assms(5), of c ?x]
    by (simp add: 1 2 same names_ensured)
qed

text \<open>Against a service without albums, the first run lists, creates the album
  \<open>Memos\<close> and adds the asset; the second run lists and adds, and the service is as
  before.\<close>

theorem AddAssetToAlbum_twice_witness:
  "AddAssetToAlbum exampleLib (photoService ''https://photos.example/api'') exampleConfig
     exampleUUID \<lparr>remote = [], sent = []\<rparr> =
     (None, \<lparr>remote = [memosAlbum],
             sent = [listAlbumsRequest, createAlbumRequest, putAssetRequest]\<rparr>)
   \<and> AddAssetToAlbum exampleLib (photoService ''https://photos.example/api'') exampleConfig
     exampleUUID
     \<lparr>remote = [memosAlbum], sent = [listAlbumsRequest, createAlbumRequest, putAssetRequest]\<rparr> =
     (None, \<lparr>remote = [memosAlbum],
             sent = [listAlbumsRequest, createAlbumRequest, putAssetRequest,
                     listAlbumsRequest, putAssetRequest]\<rparr>)
   \<and> remote \<lparr>remote = [memosAlbum],
             sent = [listAlbumsRequest, createAlbumRequest, putAssetRequest,
                     listAlbumsRequest, putAssetRequest]\<rparr> =
     remote \<lparr>remote = [memosAlbum],
             sent = [listAlbumsRequest, createAlbumRequest, putAssetRequest]\<rparr>"
proof -
  let ?n1 = "\<lparr>remote = [memosAlbum],
             sent = [listAlbumsRequest, createAlbumRequest, putAssetRequest]\<rparr>"
  let ?n2 = "\<lparr>remote = [memosAlbum],
             sent = [listAlbumsRequest, createAlbumRequest, putAssetRequest,
                     listAlbumsRequest, putAssetRequest]\<rparr>"
  have p: "exampleUUID \<noteq> []" "MatchString uuidPattern exampleUUID" "Enabled exampleConfig"
    "NewClient exampleLib exampleConfig = Inr exampleClient"
    by code_simp+
  have q: "serviceReady exampleLib exampleConfig []"
    by (simp add: serviceReady_def exampleConfig_def exampleLib_def)
  have api: "apiBaseURL exampleClient = ''https://photos.example/api''"
    by (simp add: exampleClient_def)
  have a: "AddAssetToAlbum exampleLib (photoService (apiBaseURL exampleClient)) exampleConfig
     exampleUUID \<lparr>remote = [], sent = []\<rparr> = (None, ?n1)"
    unfolding api by code_simp
  have b: "AddAssetToAlbum exampleLib (photoService (apiBaseURL exampleClient)) exampleConfig
     exampleUUID ?n1 = (None, ?n2)"
    unfolding api by code_simp
  have "remote ?n2 = remote ?n1"
    using AddAssetToAlbum_twice [OF p q a b] by blast
  then show ?thesis
    using a b unfolding api by blast
qed

end
